theory Spec2Isabelle
  imports Complex_Main "HOL-Library.AList" "HOL-Library.Log_Nat"
begin

section \<open>Python values used by \<open>collect_logs.py\<close>\<close>

text \<open>
  The module \<open>kshell_utilities/collect_logs.py\<close> is embedded function by function.
  Python \<open>int\<close> is \<open>int\<close>, \<open>str\<close> is \<open>string\<close> (the log files are ASCII text), an
  exception is a value of \<open>error\<close>, and a function that may raise returns
  \<open>error + 'a\<close> with \<open>Inl\<close> for the exception.

  Python \<open>float\<close> values are idealised: a value read by \<open>float()\<close> from a decimal
  literal and every arithmetic operation on floats is exact arithmetic on \<open>real\<close>.
  The rounding of binary64, overflow to infinity and the literals \<open>inf\<close> and \<open>nan\<close>
  are outside this model. The one place where a float is turned back into an exact
  value, \<open>Fraction(spin/2)\<close> in \<open>spin_to_string\<close>, is modelled with its rounding to 53
  significant bits, because the string that is printed depends on it.
\<close>

datatype error =
    ValueError | ZeroDivisionError | OverflowError | KeyError | RuntimeError
  | FileNotFoundError | UnboundLocalError | IndexError | TypeError | EOFError

subsection \<open>Characters, slices and whitespace\<close>

definition is_digit :: "char \<Rightarrow> bool" where
  "is_digit c = (48 \<le> (of_char c :: nat) \<and> (of_char c :: nat) \<le> 57)"

definition digit_val :: "char \<Rightarrow> nat" where
  "digit_val c = of_char c - 48"

definition digit_char :: "nat \<Rightarrow> char" where
  "digit_char d = ''0123456789'' ! d"

text \<open>\<open>str.isspace\<close> on ASCII: tab, line feed, vertical tab, form feed, carriage return,
  the four separators \<open>0x1c\<close> to \<open>0x1f\<close>, and the space.\<close>

definition is_space :: "char \<Rightarrow> bool" where
  "is_space c = (let n = (of_char c :: nat) in (9 \<le> n \<and> n \<le> 13) \<or> (28 \<le> n \<and> n \<le> 32))"

text \<open>\<open>s[i:j]\<close> for constant bounds \<open>0 \<le> i\<close>, \<open>0 \<le> j\<close>: never raises, cut at the end of \<open>s\<close>.\<close>

definition slice :: "nat \<Rightarrow> nat \<Rightarrow> string \<Rightarrow> string" where
  "slice i j s = drop i (take j s)"

definition strip :: "string \<Rightarrow> string" where
  "strip s = rev (dropWhile is_space (rev (dropWhile is_space s)))"

text \<open>\<open>c.upper()\<close> for one ASCII character.\<close>

definition to_upper :: "char \<Rightarrow> char" where
  "to_upper c =
     (case map_of (zip ''abcdefghijklmnopqrstuvwxyz'' ''ABCDEFGHIJKLMNOPQRSTUVWXYZ'') c of
        None \<Rightarrow> c | Some u \<Rightarrow> u)"

definition to_lower :: "char \<Rightarrow> char" where
  "to_lower c =
     (case map_of (zip ''ABCDEFGHIJKLMNOPQRSTUVWXYZ'' ''abcdefghijklmnopqrstuvwxyz'') c of
        None \<Rightarrow> c | Some u \<Rightarrow> u)"

subsection \<open>\<open>str(int)\<close> and \<open>int(str)\<close>\<close>

fun str_nat :: "nat \<Rightarrow> string" where
  "str_nat n = (if n < 10 then [digit_char n] else str_nat (n div 10) @ [digit_char (n mod 10)])"

declare str_nat.simps [simp del]

definition py_str :: "int \<Rightarrow> string" where
  "py_str i = (if i < 0 then CHR ''-'' # str_nat (nat (- i)) else str_nat (nat i))"

text \<open>
  A run of decimal digits in which single underscores may separate digits (PEP 515).
  \<open>digit_run (v, k) cs\<close> continues after \<open>k\<close> digits of value \<open>v\<close> have been read and
  returns the value and the number of digits.
\<close>

fun digit_run :: "nat \<times> nat \<Rightarrow> string \<Rightarrow> (nat \<times> nat) option" where
  "digit_run (v, k) [] = Some (v, k)"
| "digit_run (v, k) (c # cs) =
     (if is_digit c then digit_run (10 * v + digit_val c, Suc k) cs
      else if c = CHR ''_'' then
        (case cs of
           [] \<Rightarrow> None
         | d # ds \<Rightarrow> if is_digit d then digit_run (10 * v + digit_val d, Suc k) ds else None)
      else None)"

definition py_digits :: "string \<Rightarrow> (nat \<times> nat) option" where
  "py_digits s =
     (case s of
        [] \<Rightarrow> None
      | c # cs \<Rightarrow> if is_digit c then digit_run (digit_val c, 1) cs else None)"

text \<open>\<open>int(s)\<close> in base 10: surrounding whitespace is dropped, one sign is allowed;
  \<open>None\<close> is \<open>ValueError\<close>.\<close>

definition py_int :: "string \<Rightarrow> int option" where
  "py_int s =
     (case strip s of
        [] \<Rightarrow> None
      | c # cs \<Rightarrow>
          if c = CHR ''-'' then map_option (\<lambda>(v, k). - int v) (py_digits cs)
          else if c = CHR ''+'' then map_option (\<lambda>(v, k). int v) (py_digits cs)
          else map_option (\<lambda>(v, k). int v) (py_digits (c # cs)))"

subsection \<open>\<open>float(str)\<close>\<close>

text \<open>
  \<open>float(s)\<close> for a decimal literal: surrounding whitespace is dropped, then an optional
  sign, digits with an optional fraction (at least one digit on one side of the point) and
  an optional exponent. \<open>None\<close> is \<open>ValueError\<close>. The value is exact.
\<close>

definition float_exponent :: "string \<Rightarrow> int option" where
  "float_exponent s =
     (case s of
        [] \<Rightarrow> None
      | c # cs \<Rightarrow>
          if c = CHR ''-'' then map_option (\<lambda>(v, k). - int v) (py_digits cs)
          else if c = CHR ''+'' then map_option (\<lambda>(v, k). int v) (py_digits cs)
          else map_option (\<lambda>(v, k). int v) (py_digits (c # cs)))"

definition float_mantissa :: "string \<Rightarrow> real option" where
  "float_mantissa m =
     (let ip = takeWhile (\<lambda>c. c \<noteq> CHR ''.'') m; r = dropWhile (\<lambda>c. c \<noteq> CHR ''.'') m in
      case r of
        [] \<Rightarrow> map_option (\<lambda>(v, k). real v) (py_digits ip)
      | _ # fp \<Rightarrow>
          if ip = [] then map_option (\<lambda>(w, j). real w / 10 ^ j) (py_digits fp)
          else if fp = [] then map_option (\<lambda>(v, k). real v) (py_digits ip)
          else (case (py_digits ip, py_digits fp) of
                  (Some (v, k), Some (w, j)) \<Rightarrow> Some (real v + real w / 10 ^ j)
                | _ \<Rightarrow> None))"

definition float_unsigned :: "string \<Rightarrow> real option" where
  "float_unsigned s =
     (let m = takeWhile (\<lambda>c. c \<noteq> CHR ''e'' \<and> c \<noteq> CHR ''E'') s;
          x = dropWhile (\<lambda>c. c \<noteq> CHR ''e'' \<and> c \<noteq> CHR ''E'') s in
      case float_mantissa m of
        None \<Rightarrow> None
      | Some v \<Rightarrow>
          (case x of
             [] \<Rightarrow> Some v
           | _ # ex \<Rightarrow>
               (case float_exponent ex of None \<Rightarrow> None | Some n \<Rightarrow> Some (v * 10 powi n))))"

definition py_float :: "string \<Rightarrow> real option" where
  "py_float s =
     (case strip s of
        [] \<Rightarrow> None
      | c # cs \<Rightarrow>
          if c = CHR ''-'' then map_option uminus (float_unsigned cs)
          else if c = CHR ''+'' then float_unsigned cs
          else float_unsigned (c # cs))"

subsection \<open>String methods\<close>

text \<open>\<open>s.split()\<close>: the maximal runs of characters that are not whitespace.\<close>

function split_ws :: "string \<Rightarrow> string list" where
  "split_ws [] = []"
| "split_ws (c # cs) =
     (if is_space c then split_ws cs
      else (c # takeWhile (\<lambda>x. \<not> is_space x) cs) # split_ws (dropWhile (\<lambda>x. \<not> is_space x) cs))"
  by pat_completeness auto
termination
  by (relation "measure length") (auto simp: le_imp_less_Suc length_dropWhile_le)

text \<open>\<open>s.split(sep)\<close> for a separator of one character: empty fields are kept.\<close>

fun split_on :: "char \<Rightarrow> string \<Rightarrow> string list" where
  "split_on sep [] = [[]]"
| "split_on sep (c # cs) =
     (if c = sep then [] # split_on sep cs
      else case split_on sep cs of [] \<Rightarrow> [[c]] | f # fs \<Rightarrow> (c # f) # fs)"

definition startswith :: "string \<Rightarrow> string \<Rightarrow> bool" where
  "startswith s p = (take (length p) s = p)"

definition endswith :: "string \<Rightarrow> string \<Rightarrow> bool" where
  "endswith s p = (length p \<le> length s \<and> drop (length s - length p) s = p)"

text \<open>\<open>s.index(p)\<close>, the first position at which \<open>p\<close> occurs in \<open>s\<close>; \<open>p in s\<close> is
  \<open>find_sub p s \<noteq> None\<close>.\<close>

fun find_sub :: "string \<Rightarrow> string \<Rightarrow> nat option" where
  "find_sub p [] = (if p = [] then Some 0 else None)"
| "find_sub p (c # cs) =
     (if startswith (c # cs) p then Some 0 else map_option Suc (find_sub p cs))"

definition contains :: "string \<Rightarrow> string \<Rightarrow> bool" where
  "contains s p = (find_sub p s \<noteq> None)"

text \<open>The format specifications \<open>{s:ws}\<close> (pad on the right), \<open>{i:wd}\<close> (pad on the left)
  and \<open>{n:0wd}\<close> for \<open>n \<ge> 0\<close> (zeros on the left).\<close>

definition fmt_s :: "nat \<Rightarrow> string \<Rightarrow> string" where
  "fmt_s w s = s @ replicate (w - length s) CHR '' ''"

definition fmt_d :: "nat \<Rightarrow> int \<Rightarrow> string" where
  "fmt_d w i = replicate (w - length (py_str i)) CHR '' '' @ py_str i"

definition fmt_0d :: "nat \<Rightarrow> nat \<Rightarrow> string" where
  "fmt_0d w n = replicate (w - length (str_nat n)) CHR ''0'' @ str_nat n"

subsection \<open>Sequencing of operations that may raise\<close>

definition then_do :: "error + 'a \<Rightarrow> ('a \<Rightarrow> error + 'b) \<Rightarrow> error + 'b" where
  "then_do m f = (case m of Inl e \<Rightarrow> Inl e | Inr x \<Rightarrow> f x)"

definition to_int :: "string \<Rightarrow> error + int" where
  "to_int s = (case py_int s of None \<Rightarrow> Inl ValueError | Some i \<Rightarrow> Inr i)"

definition to_float :: "string \<Rightarrow> error + real" where
  "to_float s = (case py_float s of None \<Rightarrow> Inl ValueError | Some x \<Rightarrow> Inr x)"

text \<open>\<open>xs[i]\<close> for \<open>i \<ge> 0\<close> and \<open>xs[-i]\<close> for \<open>i \<ge> 1\<close>.\<close>

definition item :: "'a list \<Rightarrow> nat \<Rightarrow> error + 'a" where
  "item xs i = (if i < length xs then Inr (xs ! i) else Inl IndexError)"

definition item_from_end :: "'a list \<Rightarrow> nat \<Rightarrow> error + 'a" where
  "item_from_end xs i = (if 1 \<le> i \<and> i \<le> length xs then Inr (xs ! (length xs - i)) else Inl IndexError)"

subsection \<open>Text files\<close>

text \<open>
  A file is its text; \<open>lines_of\<close> cuts it into the lines that \<open>readline\<close> and iteration
  over the file return, each with its line feed (the last line may lack one). A reader is
  the list of lines not yet read; \<open>readline\<close> returns the empty string at the end of the
  file, again and again.
\<close>

fun lines_of :: "string \<Rightarrow> string list" where
  "lines_of [] = []"
| "lines_of (c # cs) =
     (if c = CHR 0x0A then [c] # lines_of cs
      else case lines_of cs of [] \<Rightarrow> [[c]] | l # ls \<Rightarrow> (c # l) # ls)"

definition readline :: "string list \<Rightarrow> string \<times> string list" where
  "readline ls = (case ls of [] \<Rightarrow> ([], []) | l # ls' \<Rightarrow> (l, ls'))"

section \<open>The parity formatter\<close>

text \<open>
  \<^verbatim>\<open>
  def parity_integer_to_string(i: int) -> str:
      if i == 1: return '+'
      else: return '-'
  \<close>
\<close>

definition parity_integer_to_string :: "int \<Rightarrow> string" where
  "parity_integer_to_string i = (if i = 1 then ''+'' else ''-'')"

section \<open>The spin formatter\<close>

text \<open>
  \<open>spin/2\<close> is Python's true division of two integers: the quotient rounded to the nearest
  binary64 value, ties to even, and \<open>OverflowError\<close> when the rounded quotient does not
  fit. Halving changes the exponent only, so the quotient is the integer \<open>spin\<close> rounded
  to 53 significant bits, halved: for \<open>k = bitlen |spin| - 53 > 0\<close> the low \<open>k\<close> bits are
  rounded away.
\<close>

definition round_53 :: "nat \<Rightarrow> nat" where
  "round_53 m =
     (let n = nat (bitlen (int m)) in
      if n \<le> 53 then m
      else
        let k = n - 53; q = m div 2 ^ k; r = m mod 2 ^ k in
        (if 2 * r > 2 ^ k \<or> (2 * r = 2 ^ k \<and> odd q) then q + 1 else q) * 2 ^ k)"

definition truediv_2 :: "int \<Rightarrow> error + rat" where
  "truediv_2 a =
     (let m = round_53 (nat \<bar>a\<bar>) in
      if m \<ge> 2 ^ 1025 then Inl OverflowError
      else Inr (of_int (sgn a * int m) / 2))"

text \<open>\<open>str(Fraction(x))\<close>: the exact value of the float in lowest terms, printed as
  \<open>n\<close> when the denominator is 1 and as \<open>n/d\<close> otherwise.\<close>

definition str_Fraction :: "rat \<Rightarrow> string" where
  "str_Fraction x =
     (case quotient_of x of
        (n, d) \<Rightarrow> if d = 1 then py_str n else py_str n @ ''/'' @ py_str d)"

text \<open>
  \<^verbatim>\<open>
  def spin_to_string(spin: int) -> str:
      if spin < 0:
          res = str(spin)
      else:
          res = str(Fraction(spin/2))
      return res
  \<close>
\<close>

definition spin_to_string :: "int \<Rightarrow> error + string" where
  "spin_to_string spin =
     (if spin < 0 then Inr (py_str spin)
      else case truediv_2 spin of Inl e \<Rightarrow> Inl e | Inr x \<Rightarrow> Inr (str_Fraction x))"

text \<open>\<open>Fraction(s)\<close> for a string \<open>n\<close> or \<open>n/d\<close>, used to read a rendered spin back.\<close>

definition Fraction_of_string :: "string \<Rightarrow> rat option" where
  "Fraction_of_string s =
     (case (py_int (takeWhile (\<lambda>c. c \<noteq> CHR ''/'') s), dropWhile (\<lambda>c. c \<noteq> CHR ''/'') s) of
        (None, _) \<Rightarrow> None
      | (Some n, []) \<Rightarrow> Some (of_int n)
      | (Some n, _ # ds) \<Rightarrow>
          (case py_int ds of
             None \<Rightarrow> None
           | Some d \<Rightarrow> if d = 0 then None else Some (of_int n / of_int d)))"

section \<open>The unit converter\<close>

text \<open>
  A Python number that is either a float or a complex number. \<open>mass ** x\<close> with a negative
  \<open>mass\<close> and a fractional \<open>x\<close> is complex in Python 3; its value is not modelled, only
  the fact that it is not a float.
\<close>

datatype pynum = Float real | Complex_number

fun num_times :: "real \<Rightarrow> pynum \<Rightarrow> pynum" where
  "num_times x (Float y) = Float (x * y)"
| "num_times x Complex_number = Complex_number"

text \<open>\<open>b ** x\<close> for an \<open>int\<close> base and a \<open>float\<close> exponent: \<open>b ** 0.0\<close> is \<open>1.0\<close> for every
  base, \<open>0 ** x\<close> raises \<open>ZeroDivisionError\<close> for \<open>x < 0\<close>.\<close>

definition int_pow_float :: "int \<Rightarrow> real \<Rightarrow> error + pynum" where
  "int_pow_float b x =
     (if x = 0 then Inr (Float 1)
      else if 0 < b then Inr (Float (of_int b powr x))
      else if b = 0 then (if x < 0 then Inl ZeroDivisionError else Inr (Float 0))
      else if of_int \<lfloor>x\<rfloor> = x then Inr (Float (of_int b powi \<lfloor>x\<rfloor>))
      else Inr Complex_number)"

text \<open>
  \<^verbatim>\<open>
  def weisskopf_unit(multipole_type: str, mass: int) -> Tuple[float, str]:
      l = int(multipole_type[1:])
      if multipole_type[0].upper() == "E":
          B_weisskopf = 1.2**(2*l)/(4*pi)*(3/(l + 3))**2*mass**(2*l/3)
          unit_weisskopf = f"e^2 fm^{str(2*l)}"
      elif multipole_type[0].upper() == "M":
          B_weisskopf = 10/pi*1.2**(2*l - 2)*(3/(l + 3))**2*mass**((2*l - 2)/3)
          if l == 1:
              unit_weisskopf = 'mu_N^2  '
          else:
              unit_weisskopf = f"mu_N^2 fm^{str(2*l - 2)}"
      else:
          msg = f"Got invalid multipole type: '{multipole_type}'."
          raise ValueError(msg)
      return B_weisskopf, unit_weisskopf
  \<close>
  \<open>int('')\<close> raises before \<open>multipole_type[0]\<close> is read, so the \<open>IndexError\<close> branch below
  is never taken; \<open>3/(l + 3)\<close> raises \<open>ZeroDivisionError\<close> for \<open>l = -3\<close>.
\<close>

definition weisskopf_unit :: "string \<Rightarrow> int \<Rightarrow> error + (pynum \<times> string)" where
  "weisskopf_unit multipole_type mass =
     (case py_int (drop 1 multipole_type) of
        None \<Rightarrow> Inl ValueError
      | Some l \<Rightarrow>
          (case multipole_type of
             [] \<Rightarrow> Inl IndexError
           | c # _ \<Rightarrow>
               if to_upper c = CHR ''E'' then
                 (if l + 3 = 0 then Inl ZeroDivisionError
                  else case int_pow_float mass (of_int (2 * l) / 3) of
                    Inl e \<Rightarrow> Inl e
                  | Inr p \<Rightarrow>
                      Inr (num_times ((12 / 10) powi (2 * l) / (4 * pi) * (3 / of_int (l + 3))\<^sup>2) p,
                           ''e^2 fm^'' @ py_str (2 * l)))
               else if to_upper c = CHR ''M'' then
                 (if l + 3 = 0 then Inl ZeroDivisionError
                  else case int_pow_float mass (of_int (2 * l - 2) / 3) of
                    Inl e \<Rightarrow> Inl e
                  | Inr p \<Rightarrow>
                      Inr (num_times (10 / pi * (12 / 10) powi (2 * l - 2) * (3 / of_int (l + 3))\<^sup>2) p,
                           if l = 1 then ''mu_N^2  '' else ''mu_N^2 fm^'' @ py_str (2 * l - 2)))
               else Inl ValueError))"

section \<open>The energy log parser\<close>

text \<open>
  \<open>E_data\<close> is a dictionary from the energy to the tuple
  \<open>(log filename, spin, parity, eigenstate number, tt)\<close>. It is kept as an association list
  in insertion order with \<open>AList.update\<close> for \<open>E_data[energy] = v\<close>, which overwrites in
  place or appends, as a Python dictionary does.
\<close>

type_synonym level = "string \<times> int \<times> string \<times> int \<times> int"

type_synonym E_data = "(real \<times> level) list"

text \<open>
  \<^verbatim>\<open>
  while energy in E_data: energy += 0.000001
  \<close>
  With exact arithmetic the loop leaves the finite set of keys after finitely many steps.
\<close>

function nudge :: "(real \<times> 'v) list \<Rightarrow> real \<Rightarrow> real" where
  "nudge E energy = (if map_of E energy \<noteq> None then nudge E (energy + 1 / 10 ^ 6) else energy)"
  by pat_completeness auto
termination
proof (relation "measure (\<lambda>(E, e). card {k \<in> fst ` set E. e \<le> k})")
  show "wf (measure (\<lambda>(E :: (real \<times> 'v) list, e). card {k \<in> fst ` set E. e \<le> k}))"
    by simp
next
  fix E :: "(real \<times> 'v) list" and energy :: real
  assume "map_of E energy \<noteq> None"
  then have mem: "energy \<in> fst ` set E"
    by (simp add: map_of_eq_None_iff)
  have "energy \<in> {k \<in> fst ` set E. energy \<le> k}"
    using mem by simp
  moreover have "energy \<notin> {k \<in> fst ` set E. energy + 1 / 10 ^ 6 \<le> k}"
    by simp
  moreover have "{k \<in> fst ` set E. energy + 1 / 10 ^ 6 \<le> k} \<subseteq> {k \<in> fst ` set E. energy \<le> k}"
    by auto
  ultimately have "{k \<in> fst ` set E. energy + 1 / 10 ^ 6 \<le> k} \<subset> {k \<in> fst ` set E. energy \<le> k}"
    by blast
  then have "card {k \<in> fst ` set E. energy + 1 / 10 ^ 6 \<le> k} < card {k \<in> fst ` set E. energy \<le> k}"
    by (intro psubset_card_mono) simp_all
  then show "((E, energy + 1 / 10 ^ 6), (E, energy)) \<in> measure (\<lambda>(E, e). card {k \<in> fst ` set E. e \<le> k})"
    by simp
qed

declare nudge.simps [simp del]

text \<open>
  The innermost loop of \<open>read_energy_logfile\<close>, which looks for the line with the isospin:
  \<^verbatim>\<open>
  while True:
      line = infile.readline()
      if line[42:45] != ' T:': continue
      tt = int(line[45:48])
      E_data[ energy ] = (filename, spin, parity, n_eig, tt)
      break
  \<close>
  It has no test for the end of the file. The result is \<open>None\<close> when the loop does not
  return, else the isospin (or the error of \<open>int\<close>) and the reader.
\<close>

partial_function (option) scan_isospin :: "string list \<Rightarrow> (error + int \<times> string list) option" where
  "scan_isospin ls =
     (case readline ls of
        (line, ls') \<Rightarrow>
          if slice 42 45 line \<noteq> '' T:'' then scan_isospin ls'
          else (case py_int (slice 45 48 line) of
                  None \<Rightarrow> Some (Inl ValueError)
                | Some tt \<Rightarrow> Some (Inr (tt, ls'))))"

text \<open>
  The loop over the lines after a convergence line:
  \<^verbatim>\<open>
  while True:
      line = infile.readline()
      if not line: break
      if line[6:10] == '<H>:':
          n_eig = int(line[:5])
          energy = float(line[11:22])
          spin = int(line[45:48])
          parity = int(line[57:59])
          parity = parity_integer_to_string(parity)
          while energy in E_data: energy += 0.000001
          while True: ...
  \<close>
\<close>

partial_function (option) read_eigenstates ::
    "string \<Rightarrow> string list \<Rightarrow> E_data \<Rightarrow> (error + string list \<times> E_data) option" where
  "read_eigenstates filename ls E =
     (case readline ls of
        (line, ls') \<Rightarrow>
          if line = [] then Some (Inr (ls', E))
          else if slice 6 10 line = ''<H>:'' then
            (case py_int (slice 0 5 line) of
               None \<Rightarrow> Some (Inl ValueError)
             | Some n_eig \<Rightarrow>
            (case py_float (slice 11 22 line) of
               None \<Rightarrow> Some (Inl ValueError)
             | Some energy \<Rightarrow>
            (case py_int (slice 45 48 line) of
               None \<Rightarrow> Some (Inl ValueError)
             | Some spin \<Rightarrow>
            (case py_int (slice 57 59 line) of
               None \<Rightarrow> Some (Inl ValueError)
             | Some parity \<Rightarrow>
                 Option.bind (scan_isospin ls')
                   (\<lambda>r. case r of
                      Inl e \<Rightarrow> Some (Inl e)
                    | Inr (tt, ls'') \<Rightarrow>
                        read_eigenstates filename ls''
                          (AList.update (nudge E energy)
                             (filename, spin, parity_integer_to_string parity, n_eig, tt) E))))))
          else read_eigenstates filename ls' E)"

text \<open>
  The outer loop, which looks for a convergence line:
  \<^verbatim>\<open>
  while True:
      line = infile.readline()
      if not line: break
      if len(line) >= 11 and line[:11] != "H converged": continue
      if len(line) >= 14 and line[:14] != "H bn converged": continue
      while True: ...
  \<close>
\<close>

partial_function (option) read_energy_lines ::
    "string \<Rightarrow> string list \<Rightarrow> E_data \<Rightarrow> (error + E_data) option" where
  "read_energy_lines filename ls E =
     (case readline ls of
        (line, ls') \<Rightarrow>
          if line = [] then Some (Inr E)
          else if length line \<ge> 11 \<and> take 11 line \<noteq> ''H converged'' then
            read_energy_lines filename ls' E
          else if length line \<ge> 14 \<and> take 14 line \<noteq> ''H bn converged'' then
            read_energy_lines filename ls' E
          else
            Option.bind (read_eigenstates filename ls' E)
              (\<lambda>r. case r of
                 Inl e \<Rightarrow> Some (Inl e)
               | Inr (ls'', E') \<Rightarrow> read_energy_lines filename ls'' E'))"

text \<open>
  \<open>read_energy_logfile(filename, E_data)\<close> on a file system \<open>fs\<close> (file name to text): the
  updated \<open>E_data\<close>, an exception, or \<open>None\<close> when the call never returns.
\<close>

definition read_energy_logfile ::
    "(string \<rightharpoonup> string) \<Rightarrow> string \<Rightarrow> E_data \<Rightarrow> (error + E_data) option" where
  "read_energy_logfile fs filename E =
     (case fs filename of
        None \<Rightarrow> Some (Inl FileNotFoundError)
      | Some text \<Rightarrow> read_energy_lines filename (lines_of text) E)"

section \<open>The transition log parsers\<close>

text \<open>
  A formatted line is kept as a list of pieces: literal text, and float values together
  with their format specification (the digits that \<open>format\<close> prints for a float are not
  modelled).
\<close>

datatype piece = Str string | Fmt string pynum

text \<open>The module's global variables: the dictionary \<open>n_jnp\<close>, which sends
  \<open>(spin, parity, eigenstate number)\<close> to the global index, the ground state energy
  \<open>E_gs\<close> and the threshold.\<close>

type_synonym n_jnp = "int \<times> string \<times> int \<rightharpoonup> int"

type_synonym out_e = "(real \<times> piece list) list"

definition weisskopf_threshold :: real where
  "weisskopf_threshold = - (1 / 1000)"

text \<open>The local variables that the first loop of \<open>read_transit_logfile\<close> assigns;
  \<open>None\<close> is a variable that has not been assigned yet.\<close>

record header =
  mass_save :: int
  B_weisskopf :: "pynum option"
  unit_weisskopf :: "string option"
  filename_wavefunction_left :: "string option"
  filename_wavefunction_right :: "string option"

definition header_init :: header where
  "header_init =
     \<lparr>mass_save = 0, B_weisskopf = None, unit_weisskopf = None,
      filename_wavefunction_left = None, filename_wavefunction_right = None\<rparr>"

text \<open>
  The first loop (the same text in \<open>read_transit_logfile\<close> and
  \<open>read_transit_logfile_old\<close>):
  \<^verbatim>\<open>
  for line in infile:
      line_split = line.split()
      if len(line_split) == 0: continue
      if 'mass=' in line:
          n = line.index('mass=')
          mass = int(line[n + 5:n + 8])
          if not mass_save:
              mass_save = mass
          if mass_save != mass:
              raise RuntimeError(msg)
          B_weisskopf, unit_weisskopf = weisskopf_unit(multipole_type, mass)
          continue
      if line_split[0] == 'fn_load_wave_l':
          filename_wavefunction_left = line_split[2]
          continue
      if line_split[0] == 'fn_load_wave_r':
          filename_wavefunction_right = line_split[2]
          continue
      if f"{multipole_type} transition" in line:
          parity_final = parity_integer_to_string(int(line_split[-2]))
          parity_initial = parity_integer_to_string(int(line_split[-1]))
          if filename_wavefunction_left == filename_wavefunction_right:
              is_diag = True
          else:
              is_diag = False
          break
      continue
  \<close>
  The result is the header, \<open>(parity_final, parity_initial, is_diag)\<close> when the loop ended at
  the \<open>break\<close>, and the lines not yet read.
\<close>

definition read_announcement ::
    "string list \<Rightarrow> header \<Rightarrow> error + string \<times> string \<times> bool" where
  "read_announcement line_split h =
     then_do (item_from_end line_split 2) (\<lambda>a.
     then_do (to_int a) (\<lambda>p_f.
     then_do (item_from_end line_split 1) (\<lambda>b.
     then_do (to_int b) (\<lambda>p_i.
       case filename_wavefunction_left h of
         None \<Rightarrow> Inl UnboundLocalError
       | Some l \<Rightarrow>
           (case filename_wavefunction_right h of
              None \<Rightarrow> Inl UnboundLocalError
            | Some r \<Rightarrow>
                Inr (parity_integer_to_string p_f, parity_integer_to_string p_i, l = r))))))"

definition read_mass :: "string \<Rightarrow> string \<Rightarrow> header \<Rightarrow> error + header" where
  "read_mass multipole_type line h =
     (case find_sub ''mass='' line of
        None \<Rightarrow> Inl ValueError
      | Some n \<Rightarrow>
          then_do (to_int (slice (n + 5) (n + 8) line)) (\<lambda>mass.
            let ms = (if mass_save h = 0 then mass else mass_save h) in
            if ms \<noteq> mass then Inl RuntimeError
            else
              then_do (weisskopf_unit multipole_type mass) (\<lambda>(B, u).
                Inr (h\<lparr>mass_save := ms, B_weisskopf := Some B, unit_weisskopf := Some u\<rparr>))))"

fun read_header ::
    "string \<Rightarrow> string list \<Rightarrow> header \<Rightarrow>
       error + header \<times> (string \<times> string \<times> bool) option \<times> string list" where
  "read_header multipole_type [] h = Inr (h, None, [])"
| "read_header multipole_type (line # ls) h =
     (if split_ws line = [] then read_header multipole_type ls h
      else if contains line ''mass='' then
        (case read_mass multipole_type line h of
           Inl e \<Rightarrow> Inl e
         | Inr h' \<Rightarrow> read_header multipole_type ls h')
      else if hd (split_ws line) = ''fn_load_wave_l'' then
        (case item (split_ws line) 2 of
           Inl e \<Rightarrow> Inl e
         | Inr f \<Rightarrow> read_header multipole_type ls (h\<lparr>filename_wavefunction_left := Some f\<rparr>))
      else if hd (split_ws line) = ''fn_load_wave_r'' then
        (case item (split_ws line) 2 of
           Inl e \<Rightarrow> Inl e
         | Inr f \<Rightarrow> read_header multipole_type ls (h\<lparr>filename_wavefunction_right := Some f\<rparr>))
      else if contains line (multipole_type @ '' transition'') then
        (case read_announcement (split_ws line) h of
           Inl e \<Rightarrow> Inl e
         | Inr a \<Rightarrow> Inr (h, Some a, ls))
      else read_header multipole_type ls h)"

text \<open>One line of the table, as the two functions read it.\<close>

record transition =
  spin_final :: int
  idx_1 :: int
  E_final :: real
  spin_initial :: int
  idx_2 :: int
  E_initial :: real
  dE :: real
  B_decay :: real
  B_excite :: real

text \<open>
  \<^verbatim>\<open>
  spin_final   = int(line_split[0])
  idx_1        = int(line_split[1])
  E_final      = float(line_split[2]) - E_gs
  spin_initial = int(line_split[3])
  idx_2        = int(line_split[4])
  E_initial    = float(line_split[5]) - E_gs
  dE           = float(line_split[6])
  Mred         = float(line_split[7])
  B_decay      = float(line_split[8])
  B_excite     = float(line_split[9])
  Mom          = float(line_split[10])
  \<close>
\<close>

definition parse_transition_new :: "real \<Rightarrow> string \<Rightarrow> error + transition" where
  "parse_transition_new E_gs line =
     (let t = split_ws line in
      then_do (then_do (item t 0) to_int) (\<lambda>sf.
      then_do (then_do (item t 1) to_int) (\<lambda>i1.
      then_do (then_do (item t 2) to_float) (\<lambda>ef.
      then_do (then_do (item t 3) to_int) (\<lambda>si.
      then_do (then_do (item t 4) to_int) (\<lambda>i2.
      then_do (then_do (item t 5) to_float) (\<lambda>ei.
      then_do (then_do (item t 6) to_float) (\<lambda>de.
      then_do (then_do (item t 7) to_float) (\<lambda>Mred.
      then_do (then_do (item t 8) to_float) (\<lambda>bd.
      then_do (then_do (item t 9) to_float) (\<lambda>be.
      then_do (then_do (item t 10) to_float) (\<lambda>Mom.
        Inr \<lparr>spin_final = sf, idx_1 = i1, E_final = ef - E_gs, spin_initial = si,
             idx_2 = i2, E_initial = ei - E_gs, dE = de, B_decay = bd, B_excite = be\<rparr>))))))))))))"

text \<open>
  \<^verbatim>\<open>
  spin_final = int(line[:2])
  idx_1 = int(line[3:7])
  spin_initial = int(line[17:19])
  idx_2 = int(line[20:24])
  dE = float(line[34:42]) # Gamma energy.
  E_final = float(line[8:17]) - E_gs
  E_initial = float(line[25:34]) - E_gs
  B_decay = float(line[52:62])
  B_excite = float(line[62:72])
  \<close>
\<close>

definition parse_transition_old :: "real \<Rightarrow> string \<Rightarrow> error + transition" where
  "parse_transition_old E_gs line =
     then_do (to_int (slice 0 2 line)) (\<lambda>sf.
     then_do (to_int (slice 3 7 line)) (\<lambda>i1.
     then_do (to_int (slice 17 19 line)) (\<lambda>si.
     then_do (to_int (slice 20 24 line)) (\<lambda>i2.
     then_do (to_float (slice 34 42 line)) (\<lambda>de.
     then_do (to_float (slice 8 17 line)) (\<lambda>ef.
     then_do (to_float (slice 25 34 line)) (\<lambda>ei.
     then_do (to_float (slice 52 62 line)) (\<lambda>bd.
     then_do (to_float (slice 62 72 line)) (\<lambda>be.
       Inr \<lparr>spin_final = sf, idx_1 = i1, E_final = ef - E_gs, spin_initial = si,
            idx_2 = i2, E_initial = ei - E_gs, dE = de, B_decay = bd, B_excite = be\<rparr>)))))))))"

datatype variant = New | Old

definition parse_transition :: "variant \<Rightarrow> real \<Rightarrow> string \<Rightarrow> error + transition" where
  "parse_transition v = (case v of New \<Rightarrow> parse_transition_new | Old \<Rightarrow> parse_transition_old)"

text \<open>
  What follows the reading of a line is the same text in both functions:
  \<^verbatim>\<open>
  B_weisskopf_decay  = B_decay/B_weisskopf
  B_weisskopf_excite = B_excite/B_weisskopf

  if (spin_final == spin_initial) and (idx_1 == idx_2): continue
  if is_diag and (dE < 0.0): continue
  if (B_weisskopf_decay < weisskopf_threshold): continue
  if (B_weisskopf_excite < weisskopf_threshold): continue
  if abs(E_final) < 1e-3: E_final = 0.
  if abs(E_initial) < 1e-3: E_initial = 0.

  idx_1 = n_jnp[ (spin_final, parity_final, idx_1) ]
  idx_2 = n_jnp[ (spin_initial, parity_initial, idx_2) ]

  if dE > 0.0:
      out = f"{spin_to_string(spin_initial):4s} "
      out += f"{parity_initial:1s} "
      out += f"{idx_2:4d} "
      out += f"{E_initial:9.3f}   "
      out += f"{spin_to_string(spin_final):4s} "
      out += f"{parity_final:1s} "
      out += f"{idx_1:4d} "
      out += f"{E_final:9.3f} "
      out += f"{dE:9.3f} "
      out += f"{B_excite:15.8f} "
      out += f"{B_weisskopf_excite:15.8f} "
      out += f"{B_decay:15.8f} "
      out += f"{B_weisskopf_decay:15.8f}\n"
      key = E_initial + E_final * 1e-5 + spin_initial *1e-10 + idx_2*1e-11 + spin_final*1e-13 + idx_1*1e-14
  else:
      out = f"{spin_to_string(spin_final):4s} "
      out += f"{parity_final:1s} "
      out += f"{idx_1:4d} "
      out += f"{E_final:9.3f}   "
      out += f"{spin_to_string(spin_initial):4s} "
      out += f"{parity_initial:1s} "
      out += f"{idx_2:4d} "
      out += f"{E_initial:9.3f} "
      out += f"{-dE:9.3f} "
      out += f"{B_decay:15.8f} "
      out += f"{B_weisskopf_decay:15.8f} "
      out += f"{B_excite:15.8f} "
      out += f"{B_weisskopf_excite:15.8f}\n"
      key = E_final + E_initial * 1e-5 + spin_final *1.e-10 + idx_1*1.e-11 + spin_initial*1.e-12 + idx_2*1.e-14
  out_e[key] = out
  \<close>
  \<open>process_transition\<close> returns \<open>None\<close> for a \<open>continue\<close> and the new entry of \<open>out_e\<close>
  otherwise.
\<close>

definition div_weisskopf :: "real \<Rightarrow> pynum option \<Rightarrow> error + pynum" where
  "div_weisskopf x B =
     (case B of
        None \<Rightarrow> Inl UnboundLocalError
      | Some (Float b) \<Rightarrow> if b = 0 then Inl ZeroDivisionError else Inr (Float (x / b))
      | Some Complex_number \<Rightarrow> Inr Complex_number)"

definition below_threshold :: "pynum \<Rightarrow> error + bool" where
  "below_threshold w =
     (case w of
        Float x \<Rightarrow> Inr (x < weisskopf_threshold)
      | Complex_number \<Rightarrow> Inl TypeError)"

definition lookup :: "n_jnp \<Rightarrow> int \<times> string \<times> int \<Rightarrow> error + int" where
  "lookup nj k = (case nj k of None \<Rightarrow> Inl KeyError | Some i \<Rightarrow> Inr i)"

definition snap :: "real \<Rightarrow> real" where
  "snap E = (if \<bar>E\<bar> < 1 / 10 ^ 3 then 0 else E)"

definition transition_line ::
    "string \<Rightarrow> string \<Rightarrow> int \<Rightarrow> real \<Rightarrow> string \<Rightarrow> string \<Rightarrow> int \<Rightarrow> real \<Rightarrow> real \<Rightarrow>
       real \<Rightarrow> pynum \<Rightarrow> real \<Rightarrow> pynum \<Rightarrow> piece list" where
  "transition_line s1 p1 i1 E1 s2 p2 i2 E2 gamma b1 w1 b2 w2 =
     [Str (fmt_s 4 s1 @ '' '' @ fmt_s 1 p1 @ '' '' @ fmt_d 4 i1 @ '' ''),
      Fmt ''9.3f'' (Float E1),
      Str (''   '' @ fmt_s 4 s2 @ '' '' @ fmt_s 1 p2 @ '' '' @ fmt_d 4 i2 @ '' ''),
      Fmt ''9.3f'' (Float E2), Str '' '',
      Fmt ''9.3f'' (Float gamma), Str '' '',
      Fmt ''15.8f'' (Float b1), Str '' '',
      Fmt ''15.8f'' w1, Str '' '',
      Fmt ''15.8f'' (Float b2), Str '' '',
      Fmt ''15.8f'' w2, Str [CHR 0x0A]]"

definition process_transition ::
    "n_jnp \<Rightarrow> pynum option \<Rightarrow> string \<times> string \<times> bool \<Rightarrow> transition \<Rightarrow>
       error + (real \<times> piece list) option" where
  "process_transition nj B a t =
     (case a of
        (parity_final, parity_initial, is_diag) \<Rightarrow>
          then_do (div_weisskopf (B_decay t) B) (\<lambda>B_weisskopf_decay.
          then_do (div_weisskopf (B_excite t) B) (\<lambda>B_weisskopf_excite.
            if spin_final t = spin_initial t \<and> idx_1 t = idx_2 t then Inr None
            else if is_diag \<and> dE t < 0 then Inr None
            else
              then_do (below_threshold B_weisskopf_decay) (\<lambda>low_decay.
                if low_decay then Inr None
                else
                  then_do (below_threshold B_weisskopf_excite) (\<lambda>low_excite.
                    if low_excite then Inr None
                    else
                      then_do (lookup nj (spin_final t, parity_final, idx_1 t)) (\<lambda>g1.
                      then_do (lookup nj (spin_initial t, parity_initial, idx_2 t)) (\<lambda>g2.
                        if dE t > 0 then
                          then_do (spin_to_string (spin_initial t)) (\<lambda>s_i.
                          then_do (spin_to_string (spin_final t)) (\<lambda>s_f.
                            Inr (Some
                              (snap (E_initial t) + snap (E_final t) * (1 / 10 ^ 5)
                                 + of_int (spin_initial t) * (1 / 10 ^ 10) + of_int g2 * (1 / 10 ^ 11)
                                 + of_int (spin_final t) * (1 / 10 ^ 13) + of_int g1 * (1 / 10 ^ 14),
                               transition_line s_i parity_initial g2 (snap (E_initial t))
                                 s_f parity_final g1 (snap (E_final t)) (dE t)
                                 (B_excite t) B_weisskopf_excite (B_decay t) B_weisskopf_decay))))
                        else
                          then_do (spin_to_string (spin_final t)) (\<lambda>s_f.
                          then_do (spin_to_string (spin_initial t)) (\<lambda>s_i.
                            Inr (Some
                              (snap (E_final t) + snap (E_initial t) * (1 / 10 ^ 5)
                                 + of_int (spin_final t) * (1 / 10 ^ 10) + of_int g1 * (1 / 10 ^ 11)
                                 + of_int (spin_initial t) * (1 / 10 ^ 12) + of_int g2 * (1 / 10 ^ 14),
                               transition_line s_f parity_final g1 (snap (E_final t))
                                 s_i parity_initial g2 (snap (E_initial t)) (- dE t)
                                 (B_decay t) B_weisskopf_decay (B_excite t) B_weisskopf_excite)))))))))))"

text \<open>
  The second loop:
  \<^verbatim>\<open>
  for line in infile:
      line_split = line.split()
      if not line_split: break
      if line.startswith("pn="):
          continue
      ...
      out_e[key] = out
  \<close>
\<close>

fun read_table ::
    "variant \<Rightarrow> real \<Rightarrow> n_jnp \<Rightarrow> pynum option \<Rightarrow> string \<times> string \<times> bool \<Rightarrow>
       string list \<Rightarrow> out_e \<Rightarrow> error + out_e" where
  "read_table v E_gs nj B a [] out = Inr out"
| "read_table v E_gs nj B a (line # ls) out =
     (if split_ws line = [] then Inr out
      else if startswith line ''pn='' then read_table v E_gs nj B a ls out
      else
        (case parse_transition v E_gs line of
           Inl e \<Rightarrow> Inl e
         | Inr t \<Rightarrow>
             (case process_transition nj B a t of
                Inl e \<Rightarrow> Inl e
              | Inr None \<Rightarrow> read_table v E_gs nj B a ls out
              | Inr (Some (key, txt)) \<Rightarrow> read_table v E_gs nj B a ls (AList.update key txt out))))"

text \<open>
  \<open>read_transit_logfile(filename, multipole_type)\<close> and \<open>read_transit_logfile_old\<close>, which
  differ in the reading of a table line only. Between the two loops one line is skipped
  (\<open>infile.readline()\<close>). When the first loop ends without \<open>break\<close> it has read the whole
  file and the second loop has no line to read. The result is
  \<open>(unit_weisskopf, out_e, mass_save)\<close>.
\<close>

definition read_transit_logfile ::
    "variant \<Rightarrow> (string \<rightharpoonup> string) \<Rightarrow> n_jnp \<Rightarrow> real \<Rightarrow> string \<Rightarrow> string \<Rightarrow>
       error + string \<times> out_e \<times> int" where
  "read_transit_logfile v fs nj E_gs filename multipole_type =
     (case fs filename of
        None \<Rightarrow> Inl FileNotFoundError
      | Some text \<Rightarrow>
          (case read_header multipole_type (lines_of text) header_init of
             Inl e \<Rightarrow> Inl e
           | Inr (h, a, rest) \<Rightarrow>
               (case (case a of
                        None \<Rightarrow> Inr []
                      | Some a' \<Rightarrow> read_table v E_gs nj (B_weisskopf h) a' (drop 1 rest) []) of
                  Inl e \<Rightarrow> Inl e
                | Inr out \<Rightarrow>
                    (case unit_weisskopf h of
                       None \<Rightarrow> Inl UnboundLocalError
                     | Some u \<Rightarrow> Inr (u, out, mass_save h)))))"

section \<open>The aggregator\<close>

text \<open>
  The scan of the directory listing:
  \<^verbatim>\<open>
  for elem in os.listdir(path):
      if elem.startswith("log_") and elem.endswith(".txt"):
          if (tmp := elem.split("_")[1].lower()) not in isotopes:
              isotopes.append(tmp)
          if not "_tr_" in elem:
              energy_log_files.append(elem)
          elif "_tr_" in elem:
              transit_log_files.append(elem)
  \<close>
  A name that starts with \<open>log_\<close> has at least two fields, so \<open>[1]\<close> does not raise.
\<close>

fun discover ::
    "string list \<Rightarrow> string list \<times> string list \<times> string list \<Rightarrow>
       string list \<times> string list \<times> string list" where
  "discover [] acc = acc"
| "discover (elem # rest) (energy_log_files, transit_log_files, isotopes) =
     (if startswith elem ''log_'' \<and> endswith elem ''.txt'' then
        (let tmp = map to_lower (split_on CHR ''_'' elem ! 1);
             isotopes' = (if tmp \<in> set isotopes then isotopes else isotopes @ [tmp]) in
         if \<not> contains elem ''_tr_'' then
           discover rest (energy_log_files @ [elem], transit_log_files, isotopes')
         else discover rest (energy_log_files, transit_log_files @ [elem], isotopes'))
      else discover rest (energy_log_files, transit_log_files, isotopes))"

text \<open>
  \<^verbatim>\<open>
  while True:
      choice = input(msg)
      if choice in isotopes:
          break
  \<close>
  The lines typed at the prompt are a list; \<open>input\<close> raises \<open>EOFError\<close> when none is left.
\<close>

fun ask_choice :: "string list \<Rightarrow> string list \<Rightarrow> error + string" where
  "ask_choice isotopes [] = Inl EOFError"
| "ask_choice isotopes (choice # answers) =
     (if choice \<in> set isotopes then Inr choice else ask_choice isotopes answers)"

text \<open>
  \<^verbatim>\<open>
  for log_file in energy_log_files:
      read_energy_logfile(log_file, E_data)
  \<close>
\<close>

fun read_energy_logfiles ::
    "(string \<rightharpoonup> string) \<Rightarrow> string list \<Rightarrow> E_data \<Rightarrow> (error + E_data) option" where
  "read_energy_logfiles fs [] E = Some (Inr E)"
| "read_energy_logfiles fs (log_file # rest) E =
     (case read_energy_logfile fs log_file E of
        None \<Rightarrow> None
      | Some (Inl e) \<Rightarrow> Some (Inl e)
      | Some (Inr E') \<Rightarrow> read_energy_logfiles fs rest E')"

text \<open>
  The assignment of the global indices, over the sorted energies:
  \<^verbatim>\<open>
  for energy in energies:
      filename, spin, parity, n_eig, tt = E_data[energy]
      spin_parity = (spin, parity)
      try:
          spin_parity_occurrences[spin_parity] += 1
      except KeyError:
          spin_parity_occurrences[spin_parity] = 1
      n_jnp[ (spin, parity, n_eig) ] = spin_parity_occurrences[spin_parity]
      E_data[energy] = filename, spin, parity, spin_parity_occurrences[spin_parity], tt
  \<close>
\<close>

fun assign_indices ::
    "real list \<Rightarrow> E_data \<times> (int \<times> string \<rightharpoonup> int) \<times> n_jnp \<Rightarrow>
       error + E_data \<times> (int \<times> string \<rightharpoonup> int) \<times> n_jnp" where
  "assign_indices [] s = Inr s"
| "assign_indices (energy # energies) (E, spin_parity_occurrences, nj) =
     (case map_of E energy of
        None \<Rightarrow> Inl KeyError
      | Some (filename, spin, parity, n_eig, tt) \<Rightarrow>
          (let c = (case spin_parity_occurrences (spin, parity) of None \<Rightarrow> 1 | Some k \<Rightarrow> k + 1) in
           assign_indices energies
             (AList.update energy (filename, spin, parity, c, tt) E,
              spin_parity_occurrences((spin, parity) \<mapsto> c),
              nj((spin, parity, n_eig) \<mapsto> c))))"

text \<open>
  The choice of the name of the summary file; \<open>isfile\<close> says which files exist.
  \<^verbatim>\<open>
  counter = 0
  while True:
      summary_filename = f"summary_{isotope}_{model_space}_{counter:03d}"
      if os.path.isfile(f"{summary_filename}.txt"):
          counter += 1
      else:
          summary_filename += ".txt"
          break
  \<close>
\<close>

partial_function (option) summary_name ::
    "(string \<Rightarrow> bool) \<Rightarrow> string \<Rightarrow> string \<Rightarrow> nat \<Rightarrow> string option" where
  "summary_name isfile isotope model_space counter =
     (if isfile (''summary_'' @ isotope @ ''_'' @ model_space @ ''_'' @ fmt_0d 3 counter @ ''.txt'')
      then summary_name isfile isotope model_space (counter + 1)
      else Some (''summary_'' @ isotope @ ''_'' @ model_space @ ''_'' @ fmt_0d 3 counter @ ''.txt''))"

text \<open>
  The levels block. What has been written stays in the file when a later statement
  raises, so the writers return the text written so far and the exception, if any.
  \<^verbatim>\<open>
  outfile.write("\n Energy levels\n")
  outfile.write('\n    N   J     prty N_Jp T        E(MeV)    Ex(MeV)  log-file\n\n')
  for i, energy in enumerate(energies):
      filename, spin, parity, n_eig, tt = E_data[energy]
      out = f"{i + 1:5d}   "
      out += f"{spin_to_string(spin):5s} "
      out += f"{parity:1s} "
      out += f"{n_eig:5d}   "
      out += f"{spin_to_string(tt):3s} "
      out += f"{energy:10.3f} "
      out += f"{energy - E_gs:10.3f}   "
      out += f"{filename}\n"
      outfile.write(out)
  outfile.write("\n")
  \<close>
\<close>

definition levels_heading :: "piece list" where
  "levels_heading =
     [Str ([CHR 0x0A] @ '' Energy levels'' @ [CHR 0x0A]),
      Str ([CHR 0x0A] @ ''    N   J     prty N_Jp T        E(MeV)    Ex(MeV)  log-file''
           @ [CHR 0x0A, CHR 0x0A])]"

definition level_line ::
    "nat \<Rightarrow> string \<Rightarrow> string \<Rightarrow> int \<Rightarrow> string \<Rightarrow> real \<Rightarrow> real \<Rightarrow> string \<Rightarrow> piece list" where
  "level_line i s parity n_eig t energy E_gs filename =
     [Str (fmt_d 5 (int i + 1) @ ''   '' @ fmt_s 5 s @ '' '' @ fmt_s 1 parity @ '' ''
           @ fmt_d 5 n_eig @ ''   '' @ fmt_s 3 t @ '' ''),
      Fmt ''10.3f'' (Float energy), Str '' '',
      Fmt ''10.3f'' (Float (energy - E_gs)),
      Str (''   '' @ filename @ [CHR 0x0A])]"

fun write_levels ::
    "E_data \<Rightarrow> real \<Rightarrow> nat \<Rightarrow> real list \<Rightarrow> piece list \<Rightarrow> piece list \<times> error option" where
  "write_levels E E_gs i [] written = (written @ [Str [CHR 0x0A]], None)"
| "write_levels E E_gs i (energy # energies) written =
     (case map_of E energy of
        None \<Rightarrow> (written, Some KeyError)
      | Some (filename, spin, parity, n_eig, tt) \<Rightarrow>
          (case spin_to_string spin of
             Inl e \<Rightarrow> (written, Some e)
           | Inr s \<Rightarrow>
               (case spin_to_string tt of
                  Inl e \<Rightarrow> (written, Some e)
                | Inr t \<Rightarrow>
                    write_levels E E_gs (i + 1) energies
                      (written @ level_line i s parity n_eig t energy E_gs filename))))"

text \<open>
  The transition logs of one multipole type, merged into \<open>output_e\<close>; \<open>unit_weisskopf\<close>
  and \<open>mass\<close> keep the values of the last file.
  \<^verbatim>\<open>
  for filename in transit_log_files:
      if old_or_new.lower() == "new":
          unit_weisskopf, out_e, mass = read_transit_logfile(filename, multipole_type)
      elif old_or_new.lower() == "old":
          unit_weisskopf, out_e, mass = read_transit_logfile_old(filename, multipole_type)
      output_e.update(out_e)
  \<close>
\<close>

fun read_transit_logfiles ::
    "variant \<Rightarrow> (string \<rightharpoonup> string) \<Rightarrow> n_jnp \<Rightarrow> real \<Rightarrow> string \<Rightarrow> string list \<Rightarrow>
       out_e \<times> (string \<times> int) option \<Rightarrow> error + out_e \<times> (string \<times> int) option" where
  "read_transit_logfiles v fs nj E_gs multipole_type [] s = Inr s"
| "read_transit_logfiles v fs nj E_gs multipole_type (filename # rest) (output_e, previous) =
     (case read_transit_logfile v fs nj E_gs filename multipole_type of
        Inl e \<Rightarrow> Inl e
      | Inr (unit_w, out_e, mass) \<Rightarrow>
          read_transit_logfiles v fs nj E_gs multipole_type rest
            (fold (\<lambda>(key, txt). AList.update key txt) out_e output_e, Some (unit_w, mass)))"

text \<open>
  \<^verbatim>\<open>
  for multipole_type in multipole_types:
      output_e = {}
      for filename in transit_log_files: ...
      B_weisskopf, unit_weisskopf = weisskopf_unit(multipole_type, mass)
      outfile.write(f"B({multipole_type})  ( > {weisskopf_threshold:.1f} W.u.)  mass = {mass}    1 W.u. = {B_weisskopf:.1f} {unit_weisskopf}")
      outfile.write(f"\n{unit_weisskopf} (W.u.)")
      outfile.write(f"\nJ_i  pi_i idx_i Ex_i    J_f  pi_f idx_f Ex_f      dE         B({multipole_type})->         B({multipole_type})->[wu]     B({multipole_type})<-         B({multipole_type})<-[wu]\n")
      for _, out in sorted(output_e.items()):
          outfile.write(out)
      outfile.write("\n\n")
  \<close>
  The keys of a dictionary are distinct, so \<open>sorted(output_e.items())\<close> is the order of the
  keys.
\<close>

definition transitions_heading :: "string \<Rightarrow> int \<Rightarrow> pynum \<Rightarrow> string \<Rightarrow> piece list" where
  "transitions_heading multipole_type mass B unit =
     [Str (''B('' @ multipole_type @ '')  ( > ''), Fmt ''.1f'' (Float weisskopf_threshold),
      Str ('' W.u.)  mass = '' @ py_str mass @ ''    1 W.u. = ''), Fmt ''.1f'' B,
      Str ('' '' @ unit),
      Str ([CHR 0x0A] @ unit @ '' (W.u.)''),
      Str ([CHR 0x0A] @ ''J_i  pi_i idx_i Ex_i    J_f  pi_f idx_f Ex_f      dE         B(''
           @ multipole_type @ '')->         B('' @ multipole_type @ '')->[wu]     B(''
           @ multipole_type @ '')<-         B('' @ multipole_type @ '')<-[wu]'' @ [CHR 0x0A])]"

fun write_transitions ::
    "variant \<Rightarrow> (string \<rightharpoonup> string) \<Rightarrow> n_jnp \<Rightarrow> real \<Rightarrow> string list \<Rightarrow> string list \<Rightarrow>
       piece list \<Rightarrow> piece list \<times> error option" where
  "write_transitions v fs nj E_gs transit_log_files [] written = (written, None)"
| "write_transitions v fs nj E_gs transit_log_files (multipole_type # rest) written =
     (case read_transit_logfiles v fs nj E_gs multipole_type transit_log_files ([], None) of
        Inl e \<Rightarrow> (written, Some e)
      | Inr (output_e, None) \<Rightarrow> (written, Some UnboundLocalError)
      | Inr (output_e, Some (unit_last, mass)) \<Rightarrow>
          (case weisskopf_unit multipole_type mass of
             Inl e \<Rightarrow> (written, Some e)
           | Inr (B, unit) \<Rightarrow>
               write_transitions v fs nj E_gs transit_log_files rest
                 (written @ transitions_heading multipole_type mass B unit
                    @ concat (map snd (sort_key fst output_e))
                    @ [Str [CHR 0x0A, CHR 0x0A]])))"

text \<open>
  The outcome of one call of \<open>collect_logs\<close>: the exception that ended it, if any; whether
  the warning about missing transition logs was issued; the summary file, if it was
  opened, with its name and what was written to it; and the global \<open>n_jnp\<close> afterwards.
\<close>

record run =
  raised :: "error option"
  warned :: bool
  summary :: "(string \<times> piece list) option"
  n_jnp_after :: n_jnp

text \<open>
  \<open>collect_logs(path, old_or_new)\<close>. Its environment: the files by name (\<open>fs\<close>), which
  files exist when the name of the summary is chosen (\<open>isfile\<close>), \<open>os.listdir(path)\<close>
  (\<open>listing\<close>), the lines typed at the prompt (\<open>answers\<close>) and the global \<open>n_jnp\<close> at the
  time of the call (\<open>nj0\<close>, empty in a fresh interpreter). \<open>None\<close> is a call that never
  returns.
\<close>

definition write_summary ::
    "variant \<Rightarrow> (string \<rightharpoonup> string) \<Rightarrow> n_jnp \<Rightarrow> E_data \<Rightarrow> real list \<Rightarrow> string list \<Rightarrow>
       piece list \<times> error option" where
  "write_summary v fs nj E energies transit_log_files =
     (case write_levels E (hd energies) 0 energies levels_heading of
        (written, Some e) \<Rightarrow> (written, Some e)
      | (written, None) \<Rightarrow>
          if length transit_log_files > 0 then
            write_transitions v fs nj (hd energies) transit_log_files [''E1'', ''M1'', ''E2''] written
          else (written, None))"

definition collect_logs ::
    "(string \<rightharpoonup> string) \<Rightarrow> (string \<Rightarrow> bool) \<Rightarrow> string list \<Rightarrow> string list \<Rightarrow> n_jnp \<Rightarrow>
       string \<Rightarrow> run option" where
  "collect_logs fs isfile listing answers nj0 old_or_new =
     (if map to_lower old_or_new \<notin> set [''new'', ''old''] then
        Some \<lparr>raised = Some ValueError, warned = False, summary = None, n_jnp_after = nj0\<rparr>
      else
        case discover listing ([], [], []) of
          (energy_all, transit_all, isotopes) \<Rightarrow>
        case (if length isotopes > 1 then
                (case ask_choice isotopes answers of
                   Inl e \<Rightarrow> Inl e
                 | Inr choice \<Rightarrow>
                     Inr (filter (\<lambda>i. contains (map to_lower i) choice) energy_all,
                          filter (\<lambda>i. contains (map to_lower i) choice) transit_all))
              else Inr (energy_all, transit_all)) of
          Inl e \<Rightarrow> Some \<lparr>raised = Some e, warned = False, summary = None, n_jnp_after = nj0\<rparr>
        | Inr (energy_log_files, transit_log_files) \<Rightarrow>
        if length energy_log_files = 0 then
          Some \<lparr>raised = Some FileNotFoundError, warned = False, summary = None, n_jnp_after = nj0\<rparr>
        else
          case read_energy_logfiles fs energy_log_files [] of
            None \<Rightarrow> None
          | Some (Inl e) \<Rightarrow>
              Some \<lparr>raised = Some e, warned = (length transit_log_files = 0), summary = None,
                    n_jnp_after = nj0\<rparr>
          | Some (Inr E_data) \<Rightarrow>
          if length E_data = 0 then
            Some \<lparr>raised = Some RuntimeError, warned = (length transit_log_files = 0),
                  summary = None, n_jnp_after = nj0\<rparr>
          else
            case assign_indices (sort (map fst E_data)) (E_data, Map.empty, nj0) of
              Inl e \<Rightarrow>
                Some \<lparr>raised = Some e, warned = (length transit_log_files = 0), summary = None,
                      n_jnp_after = nj0\<rparr>
            | Inr (E, spin_parity_occurrences, nj) \<Rightarrow>
            case item (split_on CHR ''_'' (hd energy_log_files)) 2 of
              Inl e \<Rightarrow>
                Some \<lparr>raised = Some e, warned = (length transit_log_files = 0), summary = None,
                      n_jnp_after = nj\<rparr>
            | Inr model_space \<Rightarrow>
            case summary_name isfile (split_on CHR ''_'' (hd energy_log_files) ! 1) model_space 0 of
              None \<Rightarrow> None
            | Some summary_filename \<Rightarrow>
            case write_summary (if map to_lower old_or_new = ''new'' then New else Old) fs nj E
                   (sort (map fst E_data)) transit_log_files of
              (written, err) \<Rightarrow>
                Some \<lparr>raised = err, warned = (length transit_log_files = 0),
                      summary = Some (summary_filename, written), n_jnp_after = nj\<rparr>)"

section \<open>Example log files\<close>

text \<open>The theorems below are run on small log files, written line by line.\<close>

definition text_of :: "string list \<Rightarrow> string" where
  "text_of ls = concat (map (\<lambda>l. l @ [CHR 0x0A]) ls)"

text \<open>An energy log in which the only eigenstate is not followed by an isospin line.\<close>

definition energy_log_without_isospin :: string where
  "energy_log_without_isospin = text_of
     [''H converged'',
      ''    1 <H>:   -10.50000  <JJ>:    -0.00000  J:  0/2  prty  1'']"

text \<open>An energy log with an empty first line and no convergence line.\<close>

definition energy_log_without_marker :: string where
  "energy_log_without_marker = text_of
     ['''',
      ''    1 <H>:   -10.50000  <JJ>:    -0.00000  J:  0/2  prty  1'',
      ''     <Hcm>:    0.00022  <TT>:    6.00000   T:  4/2'']"


text \<open>
  A directory with two energy logs, one for each parity, and a log of E1 transitions
  between them. The level of spin 2 and positive parity is the first of its file, the
  level of spin 2 and negative parity the second of its file.
\<close>

definition energy_log_plus :: string where
  "energy_log_plus = text_of
     [''H converged'',
      ''    1 <H>:   -10.00000  <JJ>:     6.00000  J:  4/2  prty  1'',
      ''     <Hcm>:    0.00022  <TT>:    0.00000   T:  0/2'']"

definition energy_log_minus :: string where
  "energy_log_minus = text_of
     [''H converged'',
      ''    1 <H>:    -9.50000  <JJ>:    -0.00000  J:  0/2  prty -1'',
      ''     <Hcm>:    0.00022  <TT>:    0.00000   T:  0/2'',
      ''    2 <H>:    -9.00000  <JJ>:     6.00000  J:  4/2  prty -1'',
      ''     <Hcm>:    0.00022  <TT>:    0.00000   T:  0/2'']"

definition transit_log_E1 :: string where
  "transit_log_E1 = text_of
     ['' N. of valence protons and neutrons =   2  2   mass= 20   n,z-core     8    8'',
      ''fn_load_wave_l = Ne20_usda_m0p.wav'',
      ''fn_load_wave_r = Ne20_usda_m0n.wav'',
      '' E1 transition  e^2 fm^2  eff_charge=  1.5000  0.5000 parity  1 -1'',
      '' 2Jf   idx  Ef        2Ji   idx  Ei          Ex        Mred.           B(EM )->        B(EM)<-         Mom.'',
      ''   4     1    -10.000   4     2     -9.000     1.000      0.50000000      0.25000000      0.25000000      0.00000000'']"

definition directory_E1 :: "string \<rightharpoonup> string" where
  "directory_E1 =
     [''log_Ne20_usda_m0p.txt'' \<mapsto> energy_log_plus,
      ''log_Ne20_usda_m0n.txt'' \<mapsto> energy_log_minus,
      ''log_Ne20_usda_tr_m0p_m0n.txt'' \<mapsto> transit_log_E1]"

text \<open>Transition logs without a table: one for mass 20, one for mass 50, and one that
  declares both.\<close>

definition transit_log_mass_20 :: string where
  "transit_log_mass_20 = text_of
     ['' N. of valence protons and neutrons =   2  2   mass= 20   n,z-core     8    8'']"

definition transit_log_mass_50 :: string where
  "transit_log_mass_50 = text_of
     ['' N. of valence protons and neutrons =  15 19   mass= 50   n,z-core     8    8'']"

definition transit_log_mass_20_50 :: string where
  "transit_log_mass_20_50 = text_of
     ['' N. of valence protons and neutrons =   2  2   mass= 20   n,z-core     8    8'',
      '' N. of valence protons and neutrons =  15 19   mass= 50   n,z-core     8    8'']"

definition directory_two_masses :: "string \<rightharpoonup> string" where
  "directory_two_masses =
     [''log_Ne20_usda_m0p.txt'' \<mapsto> energy_log_plus,
      ''log_Ne20_usda_tr_m0p_m0p.txt'' \<mapsto> transit_log_mass_20,
      ''log_Ne20_usda_tr_m2p_m2p.txt'' \<mapsto> transit_log_mass_50]"

definition directory_mass_mismatch :: "string \<rightharpoonup> string" where
  "directory_mass_mismatch =
     [''log_Ne20_usda_m0p.txt'' \<mapsto> energy_log_plus,
      ''log_Ne20_usda_tr_m0p_m0p.txt'' \<mapsto> transit_log_mass_20_50]"

text \<open>Two energy logs whose only levels have the same energy, spin and parity.\<close>

definition energy_log_first :: string where
  "energy_log_first = text_of
     [''H converged'',
      ''    1 <H>:   -10.00000  <JJ>:    -0.00000  J:  0/2  prty  1'',
      ''     <Hcm>:    0.00022  <TT>:    0.00000   T:  0/2'']"

definition energy_log_second :: string where
  "energy_log_second = text_of
     [''H converged'',
      ''    2 <H>:   -10.00000  <JJ>:    -0.00000  J:  0/2  prty  1'',
      ''     <Hcm>:    0.00022  <TT>:    0.00000   T:  0/2'']"

definition directory_same_energy :: "string \<rightharpoonup> string" where
  "directory_same_energy =
     [''log_Ne20_usda_a.txt'' \<mapsto> energy_log_first,
      ''log_Ne20_usda_b.txt'' \<mapsto> energy_log_second]"

text \<open>An energy log in which every line has 14 characters or more.\<close>

definition energy_log_long_lines :: string where
  "energy_log_long_lines = text_of
     [''H converged in 20 iterations'',
      ''    1 <H>:   -10.00000  <JJ>:     6.00000  J:  4/2  prty  1'',
      ''     <Hcm>:    0.00022  <TT>:    0.00000   T:  0/2'']"

section \<open>Properties of the formatters\<close>

lemma bitlen_eqI:
  assumes "2 ^ n \<le> x" and "x < 2 ^ Suc n"
  shows "bitlen x = int n + 1"
proof -
  have "bitlen x \<le> int n + 1"
    using assms(2) by (simp add: bitlen_le_iff_power nat_add_distrib)
  moreover have "int n + 1 \<le> bitlen x"
    using assms(1) by (simp add: bitlen_ge_iff_power nat_add_distrib)
  ultimately show ?thesis by simp
qed

lemma bitlen_2_53_1: "bitlen 9007199254740993 = 54"
  using bitlen_eqI [of 53 9007199254740993] by simp

lemma round_53_2_53_1: "round_53 9007199254740993 = 9007199254740992"
  by (simp add: round_53_def bitlen_2_53_1 Let_def)

text \<open>
  C10. The parity formatter is a total function of the integers: it returns \<open>+\<close> exactly
  for the input 1 and \<open>-\<close> exactly for every other integer, so no integer is rejected.
\<close>

theorem parity_integer_to_string_total:
  "(parity_integer_to_string i = ''+'') = (i = 1) \<and>
   (parity_integer_to_string i = ''-'') = (i \<noteq> 1)"
  by (simp add: parity_integer_to_string_def)

text \<open>
  C7. The claim asks that every \<open>s \<ge> 0\<close> is rendered as the exact half-integer \<open>s/2\<close>.
  The code goes through the float \<open>spin/2\<close>: for \<open>s = 2^53 + 1 = 9007199254740993\<close> the
  quotient \<open>4503599627370496.5\<close> is not a binary64 value and rounds to
  \<open>4503599627370496\<close>, so the formatter prints an integer whose double is \<open>2^53\<close>, not
  \<open>s\<close>, where the docstring promises the spin "represented correctly as an integer or as
  a fraction".
\<close>

theorem spin_to_string_inexact_above_2_53:
  "spin_to_string 9007199254740993 = Inr ''4503599627370496'' \<and>
   Fraction_of_string ''4503599627370496'' = Some 4503599627370496 \<and>
   2 * (4503599627370496 :: rat) \<noteq> 9007199254740993"
proof -
  have "spin_to_string 9007199254740993 = Inr ''4503599627370496''"
    by (simp add: spin_to_string_def truediv_2_def round_53_2_53_1 str_Fraction_def
        py_str_def str_nat.simps digit_char_def)
  moreover have "Fraction_of_string ''4503599627370496'' = Some 4503599627370496"
    by (simp add: Fraction_of_string_def py_int_def strip_def is_space_def py_digits_def
        is_digit_def digit_val_def)
  ultimately show ?thesis by simp
qed

section \<open>Properties of the unit converter\<close>



section \<open>Properties of the energy log parser\<close>


lemma nudge_fresh: "map_of E (nudge E e) = None"
proof (induction E e rule: nudge.induct)
  case (1 E energy)
  then show ?case by (subst nudge.simps) auto 
qed


lemma scan_isospin_returns:
  assumes "scan_isospin ls = Some r"
  shows "\<exists>l \<in> set ls. slice 42 45 l = '' T:''"
proof (rule scan_isospin.raw_induct [where P = "\<lambda>ls r. \<exists>l \<in> set ls. slice 42 45 l = '' T:''", OF _ assms])
  fix f ls r
  assume IH: "\<And>ls r. f ls = Some r \<Longrightarrow> \<exists>l \<in> set ls. slice 42 45 l = '' T:''"
    and eq: "(case readline ls of
        (line, ls') \<Rightarrow>
          if slice 42 45 line \<noteq> '' T:'' then f ls'
          else (case py_int (slice 45 48 line) of
                  None \<Rightarrow> Some (Inl ValueError)
                | Some tt \<Rightarrow> Some (Inr (tt, ls')))) = Some r"
  show "\<exists>l \<in> set ls. slice 42 45 l = '' T:''"
  proof (cases ls)
    case Nil
    with eq have "f [] = Some r" by (simp add: readline_def slice_def)
    from IH [OF this] show ?thesis by simp
  next
    case (Cons l ls')
    show ?thesis
    proof (cases "slice 42 45 l = '' T:''")
      case True
      with Cons show ?thesis by simp
    next
      case False
      with eq Cons have "f ls' = Some r" by (simp add: readline_def)
      from IH [OF this] Cons show ?thesis by auto
    qed
  qed
qed

lemma scan_isospin_diverges:
  "\<forall>l \<in> set ls. slice 42 45 l \<noteq> '' T:'' \<Longrightarrow> scan_isospin ls = None"
  using scan_isospin_returns by (cases "scan_isospin ls") blast+


lemma nudge_free: "map_of E e = None \<Longrightarrow> nudge E e = e"
  by (subst nudge.simps) simp

lemma update_fresh: "map_of E k = None \<Longrightarrow> AList.update k v E = E @ [(k, v)]"
  by (induction E) (auto split: if_splits)

lemma store_level_appends: "AList.update (nudge E e) v E = E @ [(nudge E e, v)]"
  by (rule update_fresh) (rule nudge_fresh)

text \<open>
  An induction rule for the calls of \<open>read_eigenstates\<close> that return: one case for each way
  in which an iteration of the loop ends.
\<close>

lemma read_eigenstates_induct [consumes 1, case_names EOF Skip Bad_line Bad_isospin Level]:
  assumes ret: "read_eigenstates filename ls E = Some r"
    and EOF: "\<And>filename ls ls' E. readline ls = ([], ls') \<Longrightarrow> P filename ls E (Inr (ls', E))"
    and Skip: "\<And>filename ls line ls' E r.
        readline ls = (line, ls') \<Longrightarrow> line \<noteq> [] \<Longrightarrow> slice 6 10 line \<noteq> ''<H>:'' \<Longrightarrow>
        read_eigenstates filename ls' E = Some r \<Longrightarrow> P filename ls' E r \<Longrightarrow> P filename ls E r"
    and Bad_line: "\<And>filename ls line ls' E.
        readline ls = (line, ls') \<Longrightarrow> line \<noteq> [] \<Longrightarrow> slice 6 10 line = ''<H>:'' \<Longrightarrow>
        py_int (slice 0 5 line) = None \<or> py_float (slice 11 22 line) = None \<or>
        py_int (slice 45 48 line) = None \<or> py_int (slice 57 59 line) = None \<Longrightarrow>
        P filename ls E (Inl ValueError)"
    and Bad_isospin: "\<And>filename ls line ls' E n_eig energy spin parity e.
        readline ls = (line, ls') \<Longrightarrow> line \<noteq> [] \<Longrightarrow> slice 6 10 line = ''<H>:'' \<Longrightarrow>
        py_int (slice 0 5 line) = Some n_eig \<Longrightarrow> py_float (slice 11 22 line) = Some energy \<Longrightarrow>
        py_int (slice 45 48 line) = Some spin \<Longrightarrow> py_int (slice 57 59 line) = Some parity \<Longrightarrow>
        scan_isospin ls' = Some (Inl e) \<Longrightarrow> P filename ls E (Inl e)"
    and Level: "\<And>filename ls line ls' E n_eig energy spin parity tt ls'' r.
        readline ls = (line, ls') \<Longrightarrow> line \<noteq> [] \<Longrightarrow> slice 6 10 line = ''<H>:'' \<Longrightarrow>
        py_int (slice 0 5 line) = Some n_eig \<Longrightarrow> py_float (slice 11 22 line) = Some energy \<Longrightarrow>
        py_int (slice 45 48 line) = Some spin \<Longrightarrow> py_int (slice 57 59 line) = Some parity \<Longrightarrow>
        scan_isospin ls' = Some (Inr (tt, ls'')) \<Longrightarrow>
        read_eigenstates filename ls''
          (AList.update (nudge E energy)
             (filename, spin, parity_integer_to_string parity, n_eig, tt) E) = Some r \<Longrightarrow>
        P filename ls''
          (AList.update (nudge E energy)
             (filename, spin, parity_integer_to_string parity, n_eig, tt) E) r \<Longrightarrow>
        P filename ls E r"
  shows "P filename ls E r"
proof -
  have "read_eigenstates filename ls E = Some r \<and> P filename ls E r"
  proof (rule read_eigenstates.raw_induct
      [where P = "\<lambda>filename ls E r. read_eigenstates filename ls E = Some r \<and> P filename ls E r",
        OF _ ret])
    fix f filename ls E r
    assume IH: "\<And>filename ls E r. f filename ls E = Some r \<Longrightarrow>
        read_eigenstates filename ls E = Some r \<and> P filename ls E r"
      and eq: "(case readline ls of
          (line, ls') \<Rightarrow>
            if line = [] then Some (Inr (ls', E))
            else if slice 6 10 line = ''<H>:'' then
              (case py_int (slice 0 5 line) of
                 None \<Rightarrow> Some (Inl ValueError)
               | Some n_eig \<Rightarrow>
              (case py_float (slice 11 22 line) of
                 None \<Rightarrow> Some (Inl ValueError)
               | Some energy \<Rightarrow>
              (case py_int (slice 45 48 line) of
                 None \<Rightarrow> Some (Inl ValueError)
               | Some spin \<Rightarrow>
              (case py_int (slice 57 59 line) of
                 None \<Rightarrow> Some (Inl ValueError)
               | Some parity \<Rightarrow>
                   Option.bind (scan_isospin ls')
                     (\<lambda>r. case r of
                        Inl e \<Rightarrow> Some (Inl e)
                      | Inr (tt, ls'') \<Rightarrow>
                          f filename ls''
                            (AList.update (nudge E energy)
                               (filename, spin, parity_integer_to_string parity, n_eig, tt) E))))))
            else f filename ls' E) = Some r"
    obtain line ls' where rl: "readline ls = (line, ls')" by (cases "readline ls")
    show "read_eigenstates filename ls E = Some r \<and> P filename ls E r"
    proof (cases "line = []")
      case True
      with eq rl have r: "r = Inr (ls', E)" by simp
      have "read_eigenstates filename ls E = Some r"
        using rl True r by (subst read_eigenstates.simps) simp
      moreover have "P filename ls E r" using EOF rl True r by simp
      ultimately show ?thesis ..
    next
      case False
      show ?thesis
      proof (cases "slice 6 10 line = ''<H>:''")
        case h: False
        with eq rl False have "f filename ls' E = Some r" by simp
        from IH [OF this] have sub: "read_eigenstates filename ls' E = Some r" "P filename ls' E r"
          by simp_all
        have "read_eigenstates filename ls E = Some r"
          using rl False h sub(1) by (subst read_eigenstates.simps) simp
        moreover have "P filename ls E r" using Skip [OF rl False h sub] .
        ultimately show ?thesis ..
      next
        case h: True
        show ?thesis
        proof (cases "py_int (slice 0 5 line) = None \<or> py_float (slice 11 22 line) = None \<or>
            py_int (slice 45 48 line) = None \<or> py_int (slice 57 59 line) = None")
          case True
          with eq rl False h have r: "r = Inl ValueError"
            by (auto split: option.splits)
          have "read_eigenstates filename ls E = Some r"
            using rl False h True r by (subst read_eigenstates.simps) (auto split: option.splits)
          moreover have "P filename ls E r" using Bad_line [OF rl False h True] r by simp
          ultimately show ?thesis ..
        next
          case False
          then obtain n_eig energy spin parity where
            p: "py_int (slice 0 5 line) = Some n_eig" "py_float (slice 11 22 line) = Some energy"
              "py_int (slice 45 48 line) = Some spin" "py_int (slice 57 59 line) = Some parity"
            by auto
          from eq rl \<open>line \<noteq> []\<close> h p obtain s where s: "scan_isospin ls' = Some s"
            and k: "(case s of
                Inl e \<Rightarrow> Some (Inl e)
              | Inr (tt, ls'') \<Rightarrow>
                  f filename ls''
                    (AList.update (nudge E energy)
                       (filename, spin, parity_integer_to_string parity, n_eig, tt) E)) = Some r"
            by (auto simp: bind_eq_Some_conv)
          show ?thesis
          proof (cases s)
            case (Inl e)
            with k have r: "r = Inl e" by simp
            have "read_eigenstates filename ls E = Some r"
              using rl \<open>line \<noteq> []\<close> h p s Inl r by (subst read_eigenstates.simps) simp
            moreover have "P filename ls E r"
              using Bad_isospin [OF rl \<open>line \<noteq> []\<close> h p] s Inl r by simp
            ultimately show ?thesis ..
          next
            case (Inr b)
            obtain tt ls'' where b: "b = (tt, ls'')" by (cases b)
            with k Inr have "f filename ls''
                (AList.update (nudge E energy)
                   (filename, spin, parity_integer_to_string parity, n_eig, tt) E) = Some r"
              by simp
            from IH [OF this] have sub: "read_eigenstates filename ls''
                (AList.update (nudge E energy)
                   (filename, spin, parity_integer_to_string parity, n_eig, tt) E) = Some r"
              "P filename ls''
                (AList.update (nudge E energy)
                   (filename, spin, parity_integer_to_string parity, n_eig, tt) E) r"
              by simp_all
            have sc: "scan_isospin ls' = Some (Inr (tt, ls''))" using s Inr b by simp
            have "read_eigenstates filename ls E = Some r"
              using rl \<open>line \<noteq> []\<close> h p sc sub(1) by (subst read_eigenstates.simps) simp
            moreover have "P filename ls E r"
              using Level [OF rl \<open>line \<noteq> []\<close> h p sc sub] .
            ultimately show ?thesis ..
          qed
        qed
      qed
    qed
  qed
  then show ?thesis ..
qed

lemma read_energy_lines_induct [consumes 1, case_names EOF Skip Bad_block Block]:
  assumes ret: "read_energy_lines filename ls E = Some r"
    and EOF: "\<And>filename ls ls' E. readline ls = ([], ls') \<Longrightarrow> P filename ls E (Inr E)"
    and Skip: "\<And>filename ls line ls' E r.
        readline ls = (line, ls') \<Longrightarrow> line \<noteq> [] \<Longrightarrow>
        (length line \<ge> 11 \<and> take 11 line \<noteq> ''H converged'') \<or>
        (length line \<ge> 14 \<and> take 14 line \<noteq> ''H bn converged'') \<Longrightarrow>
        read_energy_lines filename ls' E = Some r \<Longrightarrow> P filename ls' E r \<Longrightarrow> P filename ls E r"
    and Bad_block: "\<And>filename ls line ls' E e.
        readline ls = (line, ls') \<Longrightarrow> line \<noteq> [] \<Longrightarrow>
        \<not> (length line \<ge> 11 \<and> take 11 line \<noteq> ''H converged'') \<Longrightarrow>
        \<not> (length line \<ge> 14 \<and> take 14 line \<noteq> ''H bn converged'') \<Longrightarrow>
        read_eigenstates filename ls' E = Some (Inl e) \<Longrightarrow> P filename ls E (Inl e)"
    and Block: "\<And>filename ls line ls' E ls'' E' r.
        readline ls = (line, ls') \<Longrightarrow> line \<noteq> [] \<Longrightarrow>
        \<not> (length line \<ge> 11 \<and> take 11 line \<noteq> ''H converged'') \<Longrightarrow>
        \<not> (length line \<ge> 14 \<and> take 14 line \<noteq> ''H bn converged'') \<Longrightarrow>
        read_eigenstates filename ls' E = Some (Inr (ls'', E')) \<Longrightarrow>
        read_energy_lines filename ls'' E' = Some r \<Longrightarrow> P filename ls'' E' r \<Longrightarrow>
        P filename ls E r"
  shows "P filename ls E r"
proof -
  have "read_energy_lines filename ls E = Some r \<and> P filename ls E r"
  proof (rule read_energy_lines.raw_induct
      [where P = "\<lambda>filename ls E r. read_energy_lines filename ls E = Some r \<and> P filename ls E r",
        OF _ ret])
    fix f filename ls E r
    assume IH: "\<And>filename ls E r. f filename ls E = Some r \<Longrightarrow>
        read_energy_lines filename ls E = Some r \<and> P filename ls E r"
      and eq: "(case readline ls of
        (line, ls') \<Rightarrow>
          if line = [] then Some (Inr E)
          else if length line \<ge> 11 \<and> take 11 line \<noteq> ''H converged'' then
            f filename ls' E
          else if length line \<ge> 14 \<and> take 14 line \<noteq> ''H bn converged'' then
            f filename ls' E
          else
            Option.bind (read_eigenstates filename ls' E)
              (\<lambda>r. case r of
                 Inl e \<Rightarrow> Some (Inl e)
               | Inr (ls'', E') \<Rightarrow> f filename ls'' E')) = Some r"
    obtain line ls' where rl: "readline ls = (line, ls')" by (cases "readline ls")
    show "read_energy_lines filename ls E = Some r \<and> P filename ls E r"
    proof (cases "line = []")
      case True
      with eq rl have r: "r = Inr E" by simp
      have "read_energy_lines filename ls E = Some r"
        using rl True r by (subst read_energy_lines.simps) simp
      moreover have "P filename ls E r" using EOF rl True r by simp
      ultimately show ?thesis ..
    next
      case False
      show ?thesis
      proof (cases "(length line \<ge> 11 \<and> take 11 line \<noteq> ''H converged'') \<or>
          (length line \<ge> 14 \<and> take 14 line \<noteq> ''H bn converged'')")
        case g: True
        with eq rl False have "f filename ls' E = Some r" by (auto split: if_splits)
        from IH [OF this] have sub: "read_energy_lines filename ls' E = Some r" "P filename ls' E r"
          by simp_all
        have "read_energy_lines filename ls E = Some r"
          using rl False g sub(1) by (subst read_energy_lines.simps) auto
        moreover have "P filename ls E r" using Skip [OF rl False g sub] .
        ultimately show ?thesis ..
      next
        case g: False
        then have g1: "\<not> (length line \<ge> 11 \<and> take 11 line \<noteq> ''H converged'')"
          and g2: "\<not> (length line \<ge> 14 \<and> take 14 line \<noteq> ''H bn converged'')" by blast+
        from eq rl False g1 g2 obtain s where s: "read_eigenstates filename ls' E = Some s"
          and k: "(case s of Inl e \<Rightarrow> Some (Inl e) | Inr (ls'', E') \<Rightarrow> f filename ls'' E') = Some r"
          by (auto simp: bind_eq_Some_conv)
        show ?thesis
        proof (cases s)
          case (Inl e)
          with k have r: "r = Inl e" by simp
          have "read_energy_lines filename ls E = Some r"
            using rl False g1 g2 s Inl r by (subst read_energy_lines.simps) auto
          moreover have "P filename ls E r"
            using Bad_block [OF rl False g1 g2] s Inl r by simp
          ultimately show ?thesis ..
        next
          case (Inr b)
          obtain ls'' E' where b: "b = (ls'', E')" by (cases b)
          with k Inr have "f filename ls'' E' = Some r" by simp
          from IH [OF this] have sub: "read_energy_lines filename ls'' E' = Some r"
            "P filename ls'' E' r" by simp_all
          have sc: "read_eigenstates filename ls' E = Some (Inr (ls'', E'))" using s Inr b by simp
          have "read_energy_lines filename ls E = Some r"
            using rl False g1 g2 sc sub(1) by (subst read_energy_lines.simps) auto
          moreover have "P filename ls E r" using Block [OF rl False g1 g2 sc sub] .
          ultimately show ?thesis ..
        qed
      qed
    qed
  qed
  then show ?thesis ..
qed

text \<open>What a call that returns adds to the table is appended at its end, and the keys stay
  distinct.\<close>

lemma read_eigenstates_appends:
  assumes "read_eigenstates filename ls E = Some r"
  shows "\<forall>ls' E'. r = Inr (ls', E') \<longrightarrow> (\<exists>new. E' = E @ new)"
  using assms
proof (induction rule: read_eigenstates_induct)
  case (Level filename ls line ls' E n_eig energy spin parity tt ls'' r)
  then show ?case by (auto simp: store_level_appends)
qed auto


lemma read_energy_lines_appends:
  assumes "read_energy_lines filename ls E = Some r"
  shows "\<forall>E'. r = Inr E' \<longrightarrow> (\<exists>new. E' = E @ new)"
  using assms
proof (induction rule: read_energy_lines_induct)
  case (Block filename ls line ls' E ls'' E' r)
  from read_eigenstates_appends [OF Block(5)] obtain new where "E' = E @ new" by blast
  with Block show ?case by auto
qed auto



lemmas py_eval = readline_def slice_def py_int_def py_float_def strip_def is_space_def
  py_digits_def is_digit_def digit_val_def float_unsigned_def float_mantissa_def
  float_exponent_def parity_integer_to_string_def

lemma lines_of_energy_log_without_isospin:
  "lines_of energy_log_without_isospin =
     [''H converged'' @ [CHR 0x0A],
      ''    1 <H>:   -10.50000  <JJ>:    -0.00000  J:  0/2  prty  1'' @ [CHR 0x0A]]"
  by (simp add: energy_log_without_isospin_def text_of_def)

lemma lines_of_energy_log_without_marker:
  "lines_of energy_log_without_marker =
     [[CHR 0x0A],
      ''    1 <H>:   -10.50000  <JJ>:    -0.00000  J:  0/2  prty  1'' @ [CHR 0x0A],
      ''     <Hcm>:    0.00022  <TT>:    6.00000   T:  4/2'' @ [CHR 0x0A]]"
  by (simp add: energy_log_without_marker_def text_of_def)


text \<open>
  C9. The claim asks that the parser returns on every finite file. The loop that looks
  for the isospin line has no test for the end of the file, unlike the two loops around
  it: on a file whose last eigenstate line is not followed by a line with \<open>T:\<close> in
  columns 42 to 44, \<open>readline\<close> returns the empty string for ever and the call does not
  return.
\<close>

theorem read_energy_logfile_diverges_without_isospin:
  "read_energy_logfile [''log_Ne20_usda_m0p.txt'' \<mapsto> energy_log_without_isospin]
     ''log_Ne20_usda_m0p.txt'' [] = None"
proof -
  have "scan_isospin [] = None"
    by (rule scan_isospin_diverges) simp
  then have "read_eigenstates ''log_Ne20_usda_m0p.txt''
      [''    1 <H>:   -10.50000  <JJ>:    -0.00000  J:  0/2  prty  1'' @ [CHR 0x0A]] [] = None"
    by (subst read_eigenstates.simps) (simp add: py_eval)
  then have "read_energy_lines ''log_Ne20_usda_m0p.txt'' (lines_of energy_log_without_isospin) [] = None"
    unfolding lines_of_energy_log_without_isospin
    by (subst read_energy_lines.simps) (simp add: readline_def)
  then show ?thesis by (simp add: read_energy_logfile_def)
qed

text \<open>
  C6. The claim asks that nothing is read from a file without a convergence line. The
  two tests of the outer loop let every line of fewer than 11 characters through, so an
  empty line starts the reading of eigenstates: the file below has no line that begins
  with \<open>H converged\<close> or \<open>H bn converged\<close>, and its eigenstate is added to the table.
\<close>

theorem read_energy_logfile_reads_without_marker:
  "filter (\<lambda>l. startswith l ''H converged'' \<or> startswith l ''H bn converged'')
     (lines_of energy_log_without_marker) = [] \<and>
   read_energy_logfile [''log_Ne20_usda_m0p.txt'' \<mapsto> energy_log_without_marker]
     ''log_Ne20_usda_m0p.txt'' [] =
     Some (Inr [(- 10.5, (''log_Ne20_usda_m0p.txt'', 0, ''+'', 1, 4))])"
proof -
  have "filter (\<lambda>l. startswith l ''H converged'' \<or> startswith l ''H bn converged'')
     (lines_of energy_log_without_marker) = []"
    unfolding lines_of_energy_log_without_marker by (simp add: startswith_def)
  moreover have "read_energy_lines ''log_Ne20_usda_m0p.txt'' (lines_of energy_log_without_marker) [] =
     Some (Inr [(- 10.5, (''log_Ne20_usda_m0p.txt'', 0, ''+'', 1, 4))])"
    unfolding lines_of_energy_log_without_marker
    by (simp add: read_energy_lines.simps read_eigenstates.simps scan_isospin.simps py_eval
        nudge.simps)
  ultimately show ?thesis by (simp add: read_energy_logfile_def)
qed

text \<open>A line of 14 or more characters is skipped by the outer loop whatever it says, so a
  file without shorter lines leaves the table as it is.\<close>

lemma long_line_skipped:
  assumes "14 \<le> length l"
  shows "(11 \<le> length l \<and> take 11 l \<noteq> ''H converged'') \<or>
      (14 \<le> length l \<and> take 14 l \<noteq> ''H bn converged'')"
proof (cases "take 14 l = ''H bn converged''")
  case True
  have "take 11 l = take 11 (take 14 l)" by simp
  also have "\<dots> = ''H bn conver''" unfolding True by simp
  finally have "take 11 l \<noteq> ''H converged''" by simp
  with assms show ?thesis by simp
next
  case False
  with assms show ?thesis by simp
qed

lemma read_energy_lines_long_lines:
  "\<forall>l \<in> set ls. 14 \<le> length l \<Longrightarrow> read_energy_lines filename ls E = Some (Inr E)"
proof (induction ls)
  case Nil
  show ?case by (subst read_energy_lines.simps) (simp add: readline_def)
next
  case (Cons l ls)
  then have len: "14 \<le> length l" and rest: "read_energy_lines filename ls E = Some (Inr E)"
    by simp_all
  have "l \<noteq> []" using len by auto
  then show ?case
    using rest long_line_skipped [OF len]
    by (subst read_energy_lines.simps) (auto simp: readline_def)
qed



text \<open>Below \<open>2^53\<close> the quotient \<open>spin/2\<close> is exact, and the spin is printed as the claim
  describes.\<close>

lemma round_53_small: "m < 2 ^ 53 \<Longrightarrow> round_53 m = m"
proof -
  assume "m < 2 ^ 53"
  then have "int m < 2 ^ 53" by (metis of_nat_less_iff of_nat_numeral of_nat_power)
  then have "bitlen (int m) \<le> 53" by (simp add: bitlen_le_iff_power)
  then have "nat (bitlen (int m)) \<le> 53" by simp
  then show ?thesis unfolding round_53_def Let_def by (simp only: if_True)
qed

lemma truediv_2_exact:
  assumes "0 \<le> s" and "s < 2 ^ 53"
  shows "truediv_2 s = Inr (of_int s / 2)"
proof -
  have m: "nat \<bar>s\<bar> < 2 ^ 53" using assms by (simp add: nat_less_iff)
  have "(2::nat) ^ 53 < 2 ^ 1025" by (rule power_strict_increasing) simp_all
  with m have "\<not> 2 ^ 1025 \<le> nat \<bar>s\<bar>" by linarith
  moreover have "sgn s * int (nat \<bar>s\<bar>) = s" using assms(1) by (simp add: sgn_if)
  ultimately show ?thesis
    unfolding truediv_2_def round_53_small [OF m] Let_def by (simp only: if_False)
qed

lemma str_Fraction_half:
  "str_Fraction (of_int s / 2) = (if even s then py_str (s div 2) else py_str s @ ''/2'')"
proof (cases "even s")
  case True
  then obtain k where k: "s = 2 * k" by (auto elim: evenE)
  then have "(of_int s / 2 :: rat) = of_int k" by simp
  then have "quotient_of (of_int s / 2) = (k, 1)" by simp
  with True k show ?thesis by (simp add: str_Fraction_def)
next
  case False
  then have "coprime s 2" by (simp add: coprime_right_2_iff_odd)
  then have "Rat.normalize (s, 2) = (s, 2)" by (intro normalize_stable) simp_all
  moreover have "(of_int s / 2 :: rat) = Fract s 2" by (simp add: Fract_of_int_quotient)
  ultimately have "quotient_of (of_int s / 2) = (s, 2)" by (simp add: quotient_of_Fract)
  with False show ?thesis
    by (simp add: str_Fraction_def py_str_def str_nat.simps digit_char_def)
qed

lemma spin_to_string_exact:
  assumes "0 \<le> s" and "s < 2 ^ 53"
  shows "spin_to_string s = Inr (if even s then py_str (s div 2) else py_str s @ ''/2'')"
  using assms by (simp add: spin_to_string_def truediv_2_exact str_Fraction_half)

lemma spin_to_string_negative: "s < 0 \<Longrightarrow> spin_to_string s = Inr (py_str s)"
  by (simp add: spin_to_string_def)

section \<open>Evaluation of the example runs\<close>

lemma lines_of_line:
  "CHR 0x0A \<notin> set l \<Longrightarrow> lines_of (l @ CHR 0x0A # rest) = (l @ [CHR 0x0A]) # lines_of rest"
  by (induction l) auto

lemma lines_of_text_of:
  "\<forall>l \<in> set ls. CHR 0x0A \<notin> set l \<Longrightarrow> lines_of (text_of ls) = map (\<lambda>l. l @ [CHR 0x0A]) ls"
  by (induction ls) (auto simp: text_of_def lines_of_line)

lemma lines_of_energy_log_plus:
  "lines_of energy_log_plus = map (\<lambda>l. l @ [CHR 0x0A])
     [''H converged'',
      ''    1 <H>:   -10.00000  <JJ>:     6.00000  J:  4/2  prty  1'',
      ''     <Hcm>:    0.00022  <TT>:    0.00000   T:  0/2'']"
  by (simp add: energy_log_plus_def lines_of_text_of)

lemma lines_of_energy_log_minus:
  "lines_of energy_log_minus = map (\<lambda>l. l @ [CHR 0x0A])
     [''H converged'',
      ''    1 <H>:    -9.50000  <JJ>:    -0.00000  J:  0/2  prty -1'',
      ''     <Hcm>:    0.00022  <TT>:    0.00000   T:  0/2'',
      ''    2 <H>:    -9.00000  <JJ>:     6.00000  J:  4/2  prty -1'',
      ''     <Hcm>:    0.00022  <TT>:    0.00000   T:  0/2'']"
  by (simp add: energy_log_minus_def lines_of_text_of)

lemma lines_of_transit_log_E1:
  "lines_of transit_log_E1 = map (\<lambda>l. l @ [CHR 0x0A])
     ['' N. of valence protons and neutrons =   2  2   mass= 20   n,z-core     8    8'',
      ''fn_load_wave_l = Ne20_usda_m0p.wav'',
      ''fn_load_wave_r = Ne20_usda_m0n.wav'',
      '' E1 transition  e^2 fm^2  eff_charge=  1.5000  0.5000 parity  1 -1'',
      '' 2Jf   idx  Ef        2Ji   idx  Ei          Ex        Mred.           B(EM )->        B(EM)<-         Mom.'',
      ''   4     1    -10.000   4     2     -9.000     1.000      0.50000000      0.25000000      0.25000000      0.00000000'']"
  by (simp add: transit_log_E1_def lines_of_text_of)

lemma lines_of_transit_log_mass_20:
  "lines_of transit_log_mass_20 = map (\<lambda>l. l @ [CHR 0x0A])
     ['' N. of valence protons and neutrons =   2  2   mass= 20   n,z-core     8    8'']"
  by (simp add: transit_log_mass_20_def lines_of_text_of)

lemma lines_of_transit_log_mass_50:
  "lines_of transit_log_mass_50 = map (\<lambda>l. l @ [CHR 0x0A])
     ['' N. of valence protons and neutrons =  15 19   mass= 50   n,z-core     8    8'']"
  by (simp add: transit_log_mass_50_def lines_of_text_of)

lemma lines_of_transit_log_mass_20_50:
  "lines_of transit_log_mass_20_50 = map (\<lambda>l. l @ [CHR 0x0A])
     ['' N. of valence protons and neutrons =   2  2   mass= 20   n,z-core     8    8'',
      '' N. of valence protons and neutrons =  15 19   mass= 50   n,z-core     8    8'']"
  by (simp add: transit_log_mass_20_50_def lines_of_text_of)

lemma lines_of_energy_log_first:
  "lines_of energy_log_first = map (\<lambda>l. l @ [CHR 0x0A])
     [''H converged'',
      ''    1 <H>:   -10.00000  <JJ>:    -0.00000  J:  0/2  prty  1'',
      ''     <Hcm>:    0.00022  <TT>:    0.00000   T:  0/2'']"
  by (simp add: energy_log_first_def lines_of_text_of)

lemma lines_of_energy_log_second:
  "lines_of energy_log_second = map (\<lambda>l. l @ [CHR 0x0A])
     [''H converged'',
      ''    2 <H>:   -10.00000  <JJ>:    -0.00000  J:  0/2  prty  1'',
      ''     <Hcm>:    0.00022  <TT>:    0.00000   T:  0/2'']"
  by (simp add: energy_log_second_def lines_of_text_of)

lemma lines_of_energy_log_long_lines:
  "lines_of energy_log_long_lines = map (\<lambda>l. l @ [CHR 0x0A])
     [''H converged in 20 iterations'',
      ''    1 <H>:   -10.00000  <JJ>:     6.00000  J:  4/2  prty  1'',
      ''     <Hcm>:    0.00022  <TT>:    0.00000   T:  0/2'']"
  by (simp add: energy_log_long_lines_def lines_of_text_of)

lemmas run_eval = read_energy_logfile_def read_energy_lines.simps read_eigenstates.simps
  scan_isospin.simps py_eval nudge.simps

lemmas transit_eval = read_transit_logfile_def header_init_def read_mass_def
  read_announcement_def contains_def startswith_def then_do_def to_int_def to_float_def
  item_def item_from_end_def parse_transition_def parse_transition_new_def py_eval

lemma below_threshold_nonneg:
  assumes "0 \<le> x" and "0 < b"
  shows "below_threshold (Float (x / b)) = Inr False"
proof -
  have "0 \<le> x / b" using assms by simp
  then have "\<not> x / b < - (1 / 1000)" by linarith
  then show ?thesis by (simp add: below_threshold_def weisskopf_threshold_def)
qed

lemma spin_to_string_4: "spin_to_string 4 = Inr ''2''"
  using spin_to_string_exact [of 4] by (simp add: py_str_def str_nat.simps digit_char_def)

lemma spin_to_string_0: "spin_to_string 0 = Inr ''0''"
  using spin_to_string_exact [of 0] by (simp add: py_str_def str_nat.simps digit_char_def)

lemma weisskopf_unit_E1_20:
  "weisskopf_unit ''E1'' 20 =
     Inr (Float ((6 / 5)\<^sup>2 * (3 / 4)\<^sup>2 * 20 powr (2 / 3) / (4 * pi)), ''e^2 fm^2'')"
  by (simp add: weisskopf_unit_def py_eval to_upper_def int_pow_float_def py_str_def
      str_nat.simps digit_char_def)

lemma weisskopf_unit_M1_20:
  "weisskopf_unit ''M1'' 20 = Inr (Float (10 * (3 / 4)\<^sup>2 / pi), ''mu_N^2  '')"
  by (simp add: weisskopf_unit_def py_eval to_upper_def int_pow_float_def)

lemma weisskopf_unit_E2_20:
  "weisskopf_unit ''E2'' 20 =
     Inr (Float ((6 / 5) ^ 4 * (3 / 5)\<^sup>2 * 20 powr (4 / 3) / (4 * pi)), ''e^2 fm^4'')"
  by (simp add: weisskopf_unit_def py_eval to_upper_def int_pow_float_def py_str_def
      str_nat.simps digit_char_def)

lemma discover_directory_E1:
  "discover [''log_Ne20_usda_m0p.txt'', ''log_Ne20_usda_m0n.txt'', ''log_Ne20_usda_tr_m0p_m0n.txt'']
     ([], [], []) =
   ([''log_Ne20_usda_m0p.txt'', ''log_Ne20_usda_m0n.txt''], [''log_Ne20_usda_tr_m0p_m0n.txt''],
    [''ne20''])"
  by (simp add: startswith_def endswith_def contains_def to_lower_def)

lemma energies_directory_E1:
  "read_energy_logfiles directory_E1 [''log_Ne20_usda_m0p.txt'', ''log_Ne20_usda_m0n.txt''] [] =
     Some (Inr [(- 10, ''log_Ne20_usda_m0p.txt'', 4, ''+'', 1, 0),
                (- (19 / 2), ''log_Ne20_usda_m0n.txt'', 0, ''-'', 1, 0),
                (- 9, ''log_Ne20_usda_m0n.txt'', 4, ''-'', 2, 0)])"
  by (simp add: directory_E1_def lines_of_energy_log_plus lines_of_energy_log_minus run_eval)

lemma indices_directory_E1:
  "assign_indices [- 10, - (19 / 2), - 9]
     ([(- 10, ''log_Ne20_usda_m0p.txt'', 4, ''+'', 1, 0),
       (- (19 / 2), ''log_Ne20_usda_m0n.txt'', 0, ''-'', 1, 0),
       (- 9, ''log_Ne20_usda_m0n.txt'', 4, ''-'', 2, 0)], Map.empty, Map.empty) =
   Inr ([(- 10, ''log_Ne20_usda_m0p.txt'', 4, ''+'', 1, 0),
         (- (19 / 2), ''log_Ne20_usda_m0n.txt'', 0, ''-'', 1, 0),
         (- 9, ''log_Ne20_usda_m0n.txt'', 4, ''-'', 1, 0)],
        [(4, ''+'') \<mapsto> 1, (0, ''-'') \<mapsto> 1, (4, ''-'') \<mapsto> 1],
        [(4, ''+'', 1) \<mapsto> 1, (0, ''-'', 1) \<mapsto> 1, (4, ''-'', 2) \<mapsto> 1])"
  by simp

lemma summary_name_free:
  "\<not> isfile (''summary_'' @ isotope @ ''_'' @ model_space @ ''_'' @ fmt_0d 3 counter @ ''.txt'') \<Longrightarrow>
   summary_name isfile isotope model_space counter =
     Some (''summary_'' @ isotope @ ''_'' @ model_space @ ''_'' @ fmt_0d 3 counter @ ''.txt'')"
  by (subst summary_name.simps) simp

lemma fmt_0d_3_0: "fmt_0d 3 0 = ''000''"
  by (simp add: fmt_0d_def str_nat.simps digit_char_def numeral_2_eq_2)

lemma levels_directory_E1:
  "write_levels [(- 10, ''log_Ne20_usda_m0p.txt'', 4, ''+'', 1, 0),
         (- (19 / 2), ''log_Ne20_usda_m0n.txt'', 0, ''-'', 1, 0),
         (- 9, ''log_Ne20_usda_m0n.txt'', 4, ''-'', 1, 0)] (- 10) 0 [- 10, - (19 / 2), - 9] levels_heading =
   (levels_heading
      @ level_line 0 ''2'' ''+'' 1 ''0'' (- 10) (- 10) ''log_Ne20_usda_m0p.txt''
      @ level_line 1 ''0'' ''-'' 1 ''0'' (- (19 / 2)) (- 10) ''log_Ne20_usda_m0n.txt''
      @ level_line 2 ''2'' ''-'' 1 ''0'' (- 9) (- 10) ''log_Ne20_usda_m0n.txt''
      @ [Str [CHR 0x0A]], None)"
  by (simp add: spin_to_string_4 spin_to_string_0 numeral_2_eq_2)

lemma process_E1_row:
  "process_transition [(4, ''+'', 1) \<mapsto> 1, (0, ''-'', 1) \<mapsto> 1, (4, ''-'', 2) \<mapsto> 1]
     (Some (Float ((6 / 5)\<^sup>2 * (3 / 4)\<^sup>2 * 20 powr (2 / 3) / (4 * pi)))) (''+'', ''-'', False)
     \<lparr>spin_final = 4, idx_1 = 1, E_final = 0, spin_initial = 4, idx_2 = 2, E_initial = 1,
        dE = 1, B_decay = 1 / 4, B_excite = 1 / 4\<rparr> =
   Inr (Some (100000000041041 / 100000000000000,
      transition_line ''2'' ''-'' 1 1 ''2'' ''+'' 1 0 1
        (1 / 4) (Float (pi / ((6 / 5)\<^sup>2 * (3 / 4)\<^sup>2 * 20 powr (2 / 3))))
        (1 / 4) (Float (pi / ((6 / 5)\<^sup>2 * (3 / 4)\<^sup>2 * 20 powr (2 / 3))))))"
  by (simp add: process_transition_def then_do_def div_weisskopf_def below_threshold_nonneg
      lookup_def snap_def spin_to_string_4)

lemma transit_E1_directory_E1:
  "read_transit_logfile New directory_E1
     [(4, ''+'', 1) \<mapsto> 1, (0, ''-'', 1) \<mapsto> 1, (4, ''-'', 2) \<mapsto> 1] (- 10)
     ''log_Ne20_usda_tr_m0p_m0n.txt'' ''E1'' =
   Inr (''e^2 fm^2'',
        [(100000000041041 / 100000000000000,
          transition_line ''2'' ''-'' 1 1 ''2'' ''+'' 1 0 1
            (1 / 4) (Float (pi / ((6 / 5)\<^sup>2 * (3 / 4)\<^sup>2 * 20 powr (2 / 3))))
            (1 / 4) (Float (pi / ((6 / 5)\<^sup>2 * (3 / 4)\<^sup>2 * 20 powr (2 / 3)))))], 20)"
  by (simp add: directory_E1_def lines_of_transit_log_E1 transit_eval weisskopf_unit_E1_20
      process_E1_row)

lemma transit_M1_directory_E1:
  "read_transit_logfile New directory_E1 nj E_gs ''log_Ne20_usda_tr_m0p_m0n.txt'' ''M1'' =
   Inr (''mu_N^2  '', [], 20)"
  by (simp add: directory_E1_def lines_of_transit_log_E1 transit_eval weisskopf_unit_M1_20)

lemma transit_E2_directory_E1:
  "read_transit_logfile New directory_E1 nj E_gs ''log_Ne20_usda_tr_m0p_m0n.txt'' ''E2'' =
   Inr (''e^2 fm^4'', [], 20)"
  by (simp add: directory_E1_def lines_of_transit_log_E1 transit_eval weisskopf_unit_E2_20)

lemma transitions_directory_E1:
  "write_transitions New directory_E1
     [(4, ''+'', 1) \<mapsto> 1, (0, ''-'', 1) \<mapsto> 1, (4, ''-'', 2) \<mapsto> 1] (- 10)
     [''log_Ne20_usda_tr_m0p_m0n.txt''] [''E1'', ''M1'', ''E2''] written =
   (written
      @ transitions_heading ''E1'' 20
          (Float ((6 / 5)\<^sup>2 * (3 / 4)\<^sup>2 * 20 powr (2 / 3) / (4 * pi))) ''e^2 fm^2''
      @ transition_line ''2'' ''-'' 1 1 ''2'' ''+'' 1 0 1
          (1 / 4) (Float (pi / ((6 / 5)\<^sup>2 * (3 / 4)\<^sup>2 * 20 powr (2 / 3))))
          (1 / 4) (Float (pi / ((6 / 5)\<^sup>2 * (3 / 4)\<^sup>2 * 20 powr (2 / 3))))
      @ [Str [CHR 0x0A, CHR 0x0A]]
      @ transitions_heading ''M1'' 20 (Float (10 * (3 / 4)\<^sup>2 / pi)) ''mu_N^2  ''
      @ [Str [CHR 0x0A, CHR 0x0A]]
      @ transitions_heading ''E2'' 20
          (Float ((6 / 5) ^ 4 * (3 / 5)\<^sup>2 * 20 powr (4 / 3) / (4 * pi))) ''e^2 fm^4''
      @ [Str [CHR 0x0A, CHR 0x0A]], None)"
  by (simp add: transit_E1_directory_E1 transit_M1_directory_E1 transit_E2_directory_E1
      weisskopf_unit_E1_20 weisskopf_unit_M1_20 weisskopf_unit_E2_20)

end
